theory Spec2Isabelle
  imports Complex_Main
begin

section \<open>Values\<close>

text \<open>
  Object ids and timestamps are natural numbers; the dates of a pay week are integers
  (the time value of the JavaScript \<open>Date\<close>). A JavaScript string is the list of its
  UTF-16 code units; \<open>utf16\<close> writes an ASCII text as such a list.
\<close>

type_synonym oid = nat
type_synonym time = nat
type_synonym date = int
type_synonym jsstring = "nat list"

definition utf16 :: "string \<Rightarrow> jsstring" where
  "utf16 s = map of_char s"

subsection \<open>Numbers\<close>

text \<open>
  The program computes with IEEE doubles. The model does not fix them: the type \<open>'n\<close>
  stands for the values of the JavaScript type Number, and a record of this type
  supplies what the handlers use of them. Nothing is assumed of these operations, no
  law of arithmetic in particular, so whatever is proved for every such record holds
  for the doubles with their rounding, their infinities and their \<open>NaN\<close>.

  \<^item> \<open>n_nan\<close> is \<open>NaN\<close>, \<open>n_isNaN\<close> the test \<open>isNaN\<close>, \<open>n_zero\<close> the number \<open>0\<close>;
  \<^item> \<open>n_falsy x\<close> says that \<open>x\<close> counts as false (\<open>0\<close>, \<open>-0\<close> and \<open>NaN\<close>);
  \<^item> \<open>n_add\<close>, \<open>n_sub\<close>, \<open>n_mul\<close> are \<open>+\<close>, \<open>-\<close> and \<open>*\<close> on numbers;
  \<^item> \<open>n_literal t\<close> is the number that \<open>parseFloat\<close> reads from a string \<open>t\<close> that, its
    leading white space removed, begins with a decimal literal;
  \<^item> \<open>n_toNumber t\<close> is \<open>Number(t)\<close>, the conversion that \<open>*\<close> and the mapper's cast
    apply to a string;
  \<^item> \<open>n_reparse x\<close> is the number that \<open>parseFloat\<close> reads from the printed form of the
    number \<open>x\<close>: on doubles \<open>x\<close> itself, but for \<open>-0\<close>, which prints as \<open>0\<close>.
\<close>

record 'n numbers =
  n_nan :: 'n
  n_isNaN :: "'n \<Rightarrow> bool"
  n_zero :: 'n
  n_falsy :: "'n \<Rightarrow> bool"
  n_add :: "'n \<Rightarrow> 'n \<Rightarrow> 'n"
  n_sub :: "'n \<Rightarrow> 'n \<Rightarrow> 'n"
  n_mul :: "'n \<Rightarrow> 'n \<Rightarrow> 'n"
  n_literal :: "jsstring \<Rightarrow> 'n"
  n_toNumber :: "jsstring \<Rightarrow> 'n"
  n_reparse :: "'n \<Rightarrow> 'n"

text \<open>
  A field of a JSON request as the handlers read it: absent, null, a boolean, a
  number or a string. Arrays and objects in the place of a number are not modelled.
\<close>

datatype 'n jsval = JUndefined | JNull | JBool bool | JNum 'n | JStr jsstring

text \<open>JavaScript truthiness, as in \<open>accuracy ? ... : ...\<close> and \<open>hours && rate\<close>.\<close>

fun truthy :: "'n numbers \<Rightarrow> 'n jsval \<Rightarrow> bool" where
  "truthy A JUndefined = False"
| "truthy A JNull = False"
| "truthy A (JBool b) = b"
| "truthy A (JNum x) = (\<not> n_falsy A x)"
| "truthy A (JStr t) = (t \<noteq> [])"

text \<open>\<open>ToNumber\<close>, the conversion that \<open>*\<close> applies to its operands.\<close>

fun toNumber :: "'n numbers \<Rightarrow> 'n jsval \<Rightarrow> 'n" where
  "toNumber A JUndefined = n_nan A"
| "toNumber A JNull = n_zero A"
| "toNumber A (JBool b) = (if b then n_literal A (utf16 ''1'') else n_zero A)"
| "toNumber A (JNum x) = x"
| "toNumber A (JStr t) = n_toNumber A t"

subsection \<open>The built-in \<open>parseFloat\<close>\<close>

text \<open>
  \<open>parseFloat\<close> converts its argument to a string, removes the leading white space and
  line terminators, and reads the longest prefix that is a decimal literal: an optional
  sign, then \<open>Infinity\<close>, or digits with an optional fraction and exponent, or a point
  and digits. What follows the literal is ignored. Such a prefix exists exactly when,
  after the optional sign, the string begins with \<open>Infinity\<close>, with a digit, or with a
  point and a digit; otherwise the result is \<open>NaN\<close>.
\<close>

definition is_ws :: "nat \<Rightarrow> bool" where
  "is_ws c = (c \<in> set [0x09, 0x0A, 0x0B, 0x0C, 0x0D, 0x20, 0xA0, 0x1680, 0x2028, 0x2029,
                        0x202F, 0x205F, 0x3000, 0xFEFF]
              \<or> (0x2000 \<le> c \<and> c \<le> 0x200A))"

definition is_digit :: "nat \<Rightarrow> bool" where
  "is_digit c = (0x30 \<le> c \<and> c \<le> 0x39)"

definition after_sign :: "jsstring \<Rightarrow> jsstring" where
  "after_sign t = (case t of [] \<Rightarrow> [] | c # r \<Rightarrow> if c = 0x2B \<or> c = 0x2D then r else t)"

definition starts_literal :: "jsstring \<Rightarrow> bool" where
  "starts_literal r =
     (take 8 r = utf16 ''Infinity''
      \<or> (case r of
            [] \<Rightarrow> False
          | c # r1 \<Rightarrow>
              is_digit c
              \<or> (c = 0x2E \<and> (case r1 of [] \<Rightarrow> False | d # r2 \<Rightarrow> is_digit d))))"

definition parseFloat_string :: "'n numbers \<Rightarrow> jsstring \<Rightarrow> 'n" where
  "parseFloat_string A t =
     (if starts_literal (after_sign (dropWhile is_ws t))
      then n_literal A (dropWhile is_ws t)
      else n_nan A)"

text \<open>
  On a value that is not a string \<open>parseFloat\<close> first applies \<open>ToString\<close>: \<open>undefined\<close>,
  \<open>null\<close> and the booleans print as words, which read as \<open>NaN\<close>; a number is printed
  and read back.
\<close>

fun parseFloat :: "'n numbers \<Rightarrow> 'n jsval \<Rightarrow> 'n" where
  "parseFloat A JUndefined = n_nan A"
| "parseFloat A JNull = n_nan A"
| "parseFloat A (JBool b) = n_nan A"
| "parseFloat A (JNum x) = n_reparse A x"
| "parseFloat A (JStr t) = parseFloat_string A t"

subsection \<open>A number system for the examples\<close>

text \<open>
  The examples are computed in the following number system: \<open>NaN\<close>, the two infinities
  and the finite reals, with exact arithmetic and literals read at their exact decimal
  value. On the numbers the examples compute with, integers of small magnitude, this
  is what arithmetic on doubles gives as well.
\<close>

datatype exact_num = NaN | PosInf | NegInf | Fin real

fun x_neg :: "exact_num \<Rightarrow> exact_num" where
  "x_neg NaN = NaN"
| "x_neg PosInf = NegInf"
| "x_neg NegInf = PosInf"
| "x_neg (Fin x) = Fin (- x)"

fun x_add :: "exact_num \<Rightarrow> exact_num \<Rightarrow> exact_num" where
  "x_add (Fin x) (Fin y) = Fin (x + y)"
| "x_add NaN b = NaN"
| "x_add a NaN = NaN"
| "x_add PosInf NegInf = NaN"
| "x_add NegInf PosInf = NaN"
| "x_add PosInf b = PosInf"
| "x_add NegInf b = NegInf"
| "x_add a PosInf = PosInf"
| "x_add a NegInf = NegInf"

definition x_sub :: "exact_num \<Rightarrow> exact_num \<Rightarrow> exact_num" where
  "x_sub a b = x_add a (x_neg b)"

text \<open>The sign of a number that is not \<open>NaN\<close>: \<open>-1\<close>, \<open>0\<close> or \<open>1\<close>.\<close>

fun x_sign :: "exact_num \<Rightarrow> int" where
  "x_sign NaN = 0"
| "x_sign PosInf = 1"
| "x_sign NegInf = - 1"
| "x_sign (Fin x) = (if x < 0 then - 1 else if x = 0 then 0 else 1)"

fun x_mul :: "exact_num \<Rightarrow> exact_num \<Rightarrow> exact_num" where
  "x_mul (Fin x) (Fin y) = Fin (x * y)"
| "x_mul NaN b = NaN"
| "x_mul a NaN = NaN"
| "x_mul a b =
     (if x_sign a * x_sign b = 0 then NaN
      else if x_sign a * x_sign b < 0 then NegInf else PosInf)"

definition digit_val :: "nat \<Rightarrow> nat" where
  "digit_val c = c - 0x30"

definition digits_val :: "jsstring \<Rightarrow> nat" where
  "digits_val ds = foldl (\<lambda>a c. 10 * a + digit_val c) 0 ds"

text \<open>The exponent part: \<open>e\<close> or \<open>E\<close>, an optional sign and at least one digit; without
  a digit there is no exponent and the literal ends before the \<open>e\<close>.\<close>

definition exponent_of :: "jsstring \<Rightarrow> int" where
  "exponent_of r =
     (case r of
        [] \<Rightarrow> 0
      | c # r1 \<Rightarrow>
          if c = 0x65 \<or> c = 0x45 then
            (case r1 of
               [] \<Rightarrow> 0
             | d # r2 \<Rightarrow>
                 if d = 0x2D then - int (digits_val (takeWhile is_digit r2))
                 else if d = 0x2B then int (digits_val (takeWhile is_digit r2))
                 else int (digits_val (takeWhile is_digit r1)))
          else 0)"

definition scale10 :: "real \<Rightarrow> int \<Rightarrow> real" where
  "scale10 m e = (if 0 \<le> e then m * 10 ^ nat e else m / 10 ^ nat (- e))"

definition unsigned_literal :: "jsstring \<Rightarrow> exact_num" where
  "unsigned_literal r =
     (if take 8 r = utf16 ''Infinity'' then PosInf
      else
        let ds = takeWhile is_digit r;
            r1 = dropWhile is_digit r;
            fs = (case r1 of [] \<Rightarrow> [] | c # r2 \<Rightarrow>
                    if c = 0x2E then takeWhile is_digit r2 else []);
            r3 = (case r1 of [] \<Rightarrow> [] | c # r2 \<Rightarrow>
                    if c = 0x2E then dropWhile is_digit r2 else r1)
        in if ds = [] \<and> fs = [] then NaN
           else Fin (scale10 (real (digits_val ds) + real (digits_val fs) / 10 ^ length fs)
                       (exponent_of r3)))"

definition x_literal :: "jsstring \<Rightarrow> exact_num" where
  "x_literal t =
     (case t of
        [] \<Rightarrow> NaN
      | c # r \<Rightarrow>
          if c = 0x2D then x_neg (unsigned_literal r)
          else if c = 0x2B then unsigned_literal r
          else unsigned_literal t)"

text \<open>
  \<open>Number(t)\<close> on a string: white space is removed at both ends; the empty string is 0;
  a decimal literal that is the whole string has its value; anything else is \<open>NaN\<close>.
  (The hexadecimal, octal and binary forms are left out of this example system.)
\<close>

definition whole_literal :: "jsstring \<Rightarrow> bool" where
  "whole_literal r =
     (r = utf16 ''Infinity''
      \<or> (let ds = takeWhile is_digit r;
              r1 = dropWhile is_digit r;
              fs = (case r1 of [] \<Rightarrow> [] | c # r2 \<Rightarrow>
                      if c = 0x2E then takeWhile is_digit r2 else []);
              r3 = (case r1 of [] \<Rightarrow> [] | c # r2 \<Rightarrow>
                      if c = 0x2E then dropWhile is_digit r2 else r1)
          in (ds \<noteq> [] \<or> fs \<noteq> [])
             \<and> (r3 = []
                \<or> (case r3 of [] \<Rightarrow> False | c # r4 \<Rightarrow>
                      (c = 0x65 \<or> c = 0x45)
                      \<and> (let r5 = after_sign r4 in r5 \<noteq> [] \<and> list_all is_digit r5)))))"

definition x_toNumber :: "jsstring \<Rightarrow> exact_num" where
  "x_toNumber t =
     (let m = rev (dropWhile is_ws (rev (dropWhile is_ws t)))
      in if m = [] then Fin 0
         else if whole_literal (after_sign m) then x_literal m
         else NaN)"

definition exact :: "exact_num numbers" where
  "exact = \<lparr>n_nan = NaN, n_isNaN = (\<lambda>x. x = NaN), n_zero = Fin 0,
            n_falsy = (\<lambda>x. x = NaN \<or> x = Fin 0),
            n_add = x_add, n_sub = x_sub, n_mul = x_mul,
            n_literal = x_literal, n_toNumber = x_toNumber, n_reparse = (\<lambda>x. x)\<rparr>"

section \<open>Collections\<close>

text \<open>
  The documents of the \<open>User\<close>, \<open>Employee\<close>, \<open>Location\<close> and \<open>PaymentRecord\<close>
  collections, with the fields the handlers below read or write. The free-text
  \<open>address\<close>, \<open>device\<close> and \<open>ipAddress\<close> of a location and the profile fields of a
  user are not modelled: no handler branches on them.
\<close>

datatype role = Admin | EmployeeRole

record User =
  u_id :: oid
  role :: role

record Employee =
  e_id :: oid
  e_user :: oid
  e_locations :: "oid list"

datatype status = CheckedIn | CheckedOut

record 'n Location =
  l_id :: oid
  l_employee :: oid
  latitude :: 'n
  longitude :: 'n
  checkInTime :: time
  checkOutTime :: "time option"
  l_status :: status
  accuracy :: "'n option"
  lastUpdated :: time

datatype paymentStatus = Pending | Paid | Cancelled

datatype paymentMethod = BankTransfer | Cash | Check | Other

text \<open>A bonus or deduction; an amount that is \<open>undefined\<close> or \<open>null\<close> is \<open>None\<close>.\<close>

record 'n line_item =
  description :: string
  amount :: "'n option"

text \<open>The nested \<open>overtime\<close> object; a field that is \<open>undefined\<close> or \<open>null\<close> is \<open>None\<close>.\<close>

record 'n Overtime =
  ot_hours :: "'n option"
  ot_rate :: "'n option"
  ot_amount :: "'n option"

text \<open>
  \<open>payPeriod\<close> is the string \<open>Week of <start> - <end>\<close>; the model keeps the two dates
  it is printed from. \<open>grossPay\<close> and \<open>netPay\<close> have no default and are \<open>None\<close> until
  the save hook writes them.
\<close>

record 'n PaymentRecord =
  p_id :: oid
  p_employee :: oid
  weekStartDate :: date
  weekEndDate :: date
  payPeriod :: "(date \<times> date) option"
  basicSalary :: 'n
  overtime :: "'n Overtime"
  bonuses :: "'n line_item list"
  deductions :: "'n line_item list"
  grossPay :: "'n option"
  totalDeductions :: 'n
  netPay :: "'n option"
  paymentStatus :: paymentStatus
  paymentDate :: "time option"
  paymentMethod :: paymentMethod
  p_notes :: "string option"
  uploadedBy :: oid
  isViewed :: bool
  viewedAt :: "time option"

text \<open>The database: the four collections and the next fresh object id.\<close>

record 'n db =
  users :: "User list"
  employees :: "Employee list"
  locations :: "'n Location list"
  paymentRecords :: "'n PaymentRecord list"
  next_oid :: oid

text \<open>\<open>findByIdAndUpdate\<close> and \<open>findByIdAndDelete\<close> act on the first matching document.\<close>

fun update_first :: "('a \<Rightarrow> bool) \<Rightarrow> ('a \<Rightarrow> 'a) \<Rightarrow> 'a list \<Rightarrow> 'a list" where
  "update_first P f [] = []"
| "update_first P f (x # xs) = (if P x then f x # xs else x # update_first P f xs)"

fun delete_first :: "('a \<Rightarrow> bool) \<Rightarrow> 'a list \<Rightarrow> 'a list" where
  "delete_first P [] = []"
| "delete_first P (x # xs) = (if P x then xs else x # delete_first P xs)"

section \<open>Responses\<close>

text \<open>
  A handler answers with a status code and either a payload (\<open>success: true\<close>), an
  error text (\<open>success: false\<close>), or the list of request validation errors (status 400).
  In \<open>checkIn\<close> the error text of a caught exception is the exception's own message.
\<close>

datatype odm_error = CastError | ValidationError | DuplicateKey | DocumentNotFound

datatype error_text = Text string | ErrMessage odm_error

datatype 'n payload = NoData | LocData "'n Location" | PayData "'n PaymentRecord"

datatype 'n response = Ok nat "'n payload" | Fail nat error_text | ValidationErrors

fun status_code :: "'n response \<Rightarrow> nat" where
  "status_code (Ok n d) = n"
| "status_code (Fail n e) = n"
| "status_code ValidationErrors = 400"

fun is_failure :: "'n response \<Rightarrow> bool" where
  "is_failure (Ok n d) = False"
| "is_failure (Fail n e) = True"
| "is_failure ValidationErrors = True"

section \<open>Attendance: \<open>controllers/locations.js\<close>\<close>

text \<open>
  What a check-in or live-update request carries: the three fields of the body, which
  the handlers read, and the values that \<open>latitude\<close> and \<open>longitude\<close> have in the
  cookies, headers, route parameters and query, which only the route validators read.
\<close>

record 'n location_request =
  req_latitude :: "'n jsval"
  req_longitude :: "'n jsval"
  req_accuracy :: "'n jsval"
  other_latitude :: "'n jsval list"
  other_longitude :: "'n jsval list"

text \<open>
  The route validators of \<open>POST /checkin\<close>: \<open>check(field).not().isEmpty()\<close> for
  \<open>latitude\<close> and \<open>longitude\<close>. \<open>check\<close> looks the field up in the body, cookies,
  headers, parameters and query and validates every place where it is defined (the
  body's, when it is defined nowhere). A value is empty when its string form has no
  character: \<open>undefined\<close>, \<open>null\<close>, \<open>NaN\<close> and the empty string.
\<close>

fun is_empty_field :: "'n numbers \<Rightarrow> 'n jsval \<Rightarrow> bool" where
  "is_empty_field A JUndefined = True"
| "is_empty_field A JNull = True"
| "is_empty_field A (JBool b) = False"
| "is_empty_field A (JNum x) = n_isNaN A x"
| "is_empty_field A (JStr t) = (t = [])"

definition field_not_empty :: "'n numbers \<Rightarrow> 'n jsval \<Rightarrow> 'n jsval list \<Rightarrow> bool" where
  "field_not_empty A v others =
     (let defined = filter (\<lambda>x. x \<noteq> JUndefined) (v # others)
      in defined \<noteq> [] \<and> list_all (\<lambda>x. \<not> is_empty_field A x) defined)"

definition checkin_validation :: "'n numbers \<Rightarrow> 'n location_request \<Rightarrow> bool" where
  "checkin_validation A b =
     (field_not_empty A (req_latitude b) (other_latitude b)
      \<and> field_not_empty A (req_longitude b) (other_longitude b))"

text \<open>
  The object-document mapper casts every value written to a \<open>Number\<close> path and refuses
  \<open>NaN\<close>; \<open>null\<close> is stored as it is. \<open>Location.create\<close> reports a refused cast as a
  validation error, \<open>findByIdAndUpdate\<close> as a cast error.
\<close>

definition castNumber :: "'n numbers \<Rightarrow> 'n \<Rightarrow> odm_error + 'n" where
  "castNumber A x = (if n_isNaN A x then Inl CastError else Inr x)"

definition castOptNumber :: "'n numbers \<Rightarrow> 'n option \<Rightarrow> odm_error + 'n option" where
  "castOptNumber A a = (case a of None \<Rightarrow> Inr None | Some x \<Rightarrow>
     (case castNumber A x of Inl e \<Rightarrow> Inl e | Inr y \<Rightarrow> Inr (Some y)))"

text \<open>\<open>Location.create\<close>: cast the numbers, fill the defaults, take a fresh id.\<close>

definition Location_create ::
  "'n numbers \<Rightarrow> oid \<Rightarrow> oid \<Rightarrow> 'n \<Rightarrow> 'n \<Rightarrow> 'n option \<Rightarrow> time \<Rightarrow> odm_error + 'n Location" where
  "Location_create A new_id emp lat lng acc now =
     (case castNumber A lat of Inl e \<Rightarrow> Inl ValidationError | Inr lat' \<Rightarrow>
     (case castNumber A lng of Inl e \<Rightarrow> Inl ValidationError | Inr lng' \<Rightarrow>
     (case castOptNumber A acc of Inl e \<Rightarrow> Inl ValidationError | Inr acc' \<Rightarrow>
        Inr \<lparr>l_id = new_id, l_employee = emp, latitude = lat', longitude = lng',
             checkInTime = now, checkOutTime = None, l_status = CheckedIn,
             accuracy = acc', lastUpdated = now\<rparr>)))"

text \<open>
  \<open>checkIn\<close> in the two parts that its \<open>await\<close>s separate. The first part only reads:
  the validation result, the caller's role, \<open>Employee.findOne\<close> and the
  \<open>Location.findOne\<close> that looks for an open session; it ends the request with an
  answer or hands the employee profile on. The second part writes: \<open>Location.create\<close>,
  then the push of the new id onto the employee's \<open>locations\<close>. Other requests may run
  between the two parts, so the second takes the database as it is by then.
\<close>

definition checkIn_read ::
  "'n numbers \<Rightarrow> 'n db \<Rightarrow> User \<Rightarrow> 'n location_request \<Rightarrow> 'n response + Employee" where
  "checkIn_read A s u b =
     (if \<not> checkin_validation A b then Inl ValidationErrors
      else if role u = Admin then
        Inl (Fail 403 (Text ''Admins cannot check in. Only employees can check in.''))
      else
        case find (\<lambda>e. e_user e = u_id u) (employees s) of
          None \<Rightarrow> Inl (Fail 404 (Text ''Employee not found''))
        | Some employee \<Rightarrow>
            (case find (\<lambda>l. l_employee l = e_id employee \<and> l_status l = CheckedIn) (locations s) of
               Some existingCheckIn \<Rightarrow>
                 Inl (Fail 400 (Text ''You are already checked in. Please check out first.''))
             | None \<Rightarrow> Inr employee))"

definition checkIn_write ::
  "'n numbers \<Rightarrow> 'n db \<Rightarrow> Employee \<Rightarrow> 'n location_request \<Rightarrow> time \<Rightarrow> 'n response \<times> 'n db" where
  "checkIn_write A s employee b now =
     (case Location_create A (next_oid s) (e_id employee)
             (parseFloat A (req_latitude b)) (parseFloat A (req_longitude b))
             (if truthy A (req_accuracy b) then Some (parseFloat A (req_accuracy b)) else None)
             now of
        Inl err \<Rightarrow> (Fail 500 (ErrMessage err), s)
      | Inr location \<Rightarrow>
          (Ok 201 (LocData location),
           s\<lparr>locations := locations s @ [location],
             employees := update_first (\<lambda>e. e_id e = e_id employee)
                (\<lambda>e. e\<lparr>e_locations := e_locations e @ [l_id location]\<rparr>)
                (employees s),
             next_oid := Suc (next_oid s)\<rparr>))"

text \<open>A check-in that no other request interrupts.\<close>

definition checkIn ::
  "'n numbers \<Rightarrow> 'n db \<Rightarrow> User \<Rightarrow> 'n location_request \<Rightarrow> time \<Rightarrow> 'n response \<times> 'n db" where
  "checkIn A s u b now =
     (case checkIn_read A s u b of
        Inl answer \<Rightarrow> (answer, s)
      | Inr employee \<Rightarrow> checkIn_write A s employee b now)"

text \<open>
  The handlers that follow are each the request run as a whole, with no write by
  another request between its reads and its write.

  \<open>getLocation\<close> populates \<open>location.employee.user\<close>; reading through a reference that
  no longer resolves throws, and the handler answers 500. For an admin the ownership
  test is never evaluated.
\<close>

definition getLocation :: "'n db \<Rightarrow> User \<Rightarrow> oid \<Rightarrow> 'n response" where
  "getLocation s u i =
     (case find (\<lambda>l. l_id l = i) (locations s) of
        None \<Rightarrow> Fail 404 (Text ''Location not found'')
      | Some location \<Rightarrow>
          if role u \<noteq> Admin then
            (case find (\<lambda>e. e_id e = l_employee location) (employees s) of
               None \<Rightarrow> Fail 500 (Text ''Server Error'')
             | Some employee \<Rightarrow>
                 (case find (\<lambda>x. u_id x = e_user employee) (users s) of
                    None \<Rightarrow> Fail 500 (Text ''Server Error'')
                  | Some owner \<Rightarrow>
                      if u_id owner \<noteq> u_id u then
                        Fail 403 (Text ''Not authorized to access this location'')
                      else Ok 200 (LocData location)))
          else Ok 200 (LocData location))"

definition checkOut :: "'n db \<Rightarrow> User \<Rightarrow> oid \<Rightarrow> time \<Rightarrow> 'n response \<times> 'n db" where
  "checkOut s u i now =
     (case find (\<lambda>l. l_id l = i) (locations s) of
        None \<Rightarrow> (Fail 404 (Text ''Location not found''), s)
      | Some location \<Rightarrow>
          (case find (\<lambda>e. e_id e = l_employee location) (employees s) of
             None \<Rightarrow> (Fail 500 (Text ''Server Error''), s)
           | Some employee \<Rightarrow>
               if e_user employee \<noteq> u_id u then
                 (Fail 403 (Text ''Not authorized to check out from this location''), s)
               else
                 (Ok 200 (LocData (location\<lparr>checkOutTime := Some now, l_status := CheckedOut\<rparr>)),
                  s\<lparr>locations := update_first (\<lambda>l. l_id l = i)
                       (\<lambda>l. l\<lparr>checkOutTime := Some now, l_status := CheckedOut\<rparr>) (locations s)\<rparr>)))"

definition deleteLocation :: "'n db \<Rightarrow> User \<Rightarrow> oid \<Rightarrow> 'n response \<times> 'n db" where
  "deleteLocation s u i =
     (case find (\<lambda>l. l_id l = i) (locations s) of
        None \<Rightarrow> (Fail 404 (Text ''Location not found''), s)
      | Some location \<Rightarrow>
          if role u \<noteq> Admin then
            (Fail 403 (Text ''Not authorized to delete this location''), s)
          else
            (case find (\<lambda>e. e_id e = l_employee location) (employees s) of
               None \<Rightarrow> (Fail 500 (Text ''Server Error''), s)
             | Some employee \<Rightarrow>
                 (Ok 200 NoData,
                  s\<lparr>employees := update_first (\<lambda>e. e_id e = e_id employee)
                       (\<lambda>e. e\<lparr>e_locations := filter (\<lambda>loc. loc \<noteq> i) (e_locations employee)\<rparr>)
                       (employees s),
                    locations := delete_first (\<lambda>l. l_id l = i) (locations s)\<rparr>)))"

definition updateLiveLocation ::
  "'n numbers \<Rightarrow> 'n db \<Rightarrow> User \<Rightarrow> oid \<Rightarrow> 'n location_request \<Rightarrow> time \<Rightarrow> 'n response \<times> 'n db" where
  "updateLiveLocation A s u i b now =
     (case find (\<lambda>l. l_id l = i) (locations s) of
        None \<Rightarrow> (Fail 404 (Text ''Location not found''), s)
      | Some location \<Rightarrow>
          (case find (\<lambda>e. e_id e = l_employee location) (employees s) of
             None \<Rightarrow> (Fail 500 (Text ''Server Error''), s)
           | Some employee \<Rightarrow>
               if e_user employee \<noteq> u_id u then
                 (Fail 403 (Text ''Not authorized to update this location''), s)
               else if l_status location \<noteq> CheckedIn then
                 (Fail 400 (Text ''Cannot update location for checked-out session''), s)
               else
                 (case castNumber A (parseFloat A (req_latitude b)) of
                    Inl err \<Rightarrow> (Fail 500 (Text ''Server Error''), s)
                  | Inr lat \<Rightarrow>
                 (case castNumber A (parseFloat A (req_longitude b)) of
                    Inl err \<Rightarrow> (Fail 500 (Text ''Server Error''), s)
                  | Inr lng \<Rightarrow>
                 (case castOptNumber A (if truthy A (req_accuracy b)
                                        then Some (parseFloat A (req_accuracy b))
                                        else accuracy location) of
                    Inl err \<Rightarrow> (Fail 500 (Text ''Server Error''), s)
                  | Inr acc \<Rightarrow>
                      (Ok 200 (LocData (location\<lparr>latitude := lat, longitude := lng,
                                                 accuracy := acc, lastUpdated := now\<rparr>)),
                       s\<lparr>locations := update_first (\<lambda>l. l_id l = i)
                            (\<lambda>l. l\<lparr>latitude := lat, longitude := lng,
                                   accuracy := acc, lastUpdated := now\<rparr>) (locations s)\<rparr>))))))"

section \<open>Payroll: \<open>models/PaymentRecord.js\<close>\<close>

text \<open>\<open>x || 0\<close> on a number that may be absent.\<close>

definition or_zero :: "'n numbers \<Rightarrow> 'n option \<Rightarrow> 'n" where
  "or_zero A a = (case a of None \<Rightarrow> n_zero A | Some x \<Rightarrow> if n_falsy A x then n_zero A else x)"

text \<open>
  The \<open>pre('save')\<close> hook: the totals are folded from the left starting at 0, as
  \<open>reduce\<close> does, and the three derived fields and the pay period are assigned. An
  assignment to a \<open>Number\<close> path goes through the mapper's cast, which refuses \<open>NaN\<close>:
  the path then keeps the value it had. The net pay is computed from \<open>this.grossPay\<close>
  and \<open>this.totalDeductions\<close> as they are read back from the document; a path that
  holds nothing reads as \<open>undefined\<close>, which \<open>-\<close> converts to \<open>NaN\<close>.
\<close>

definition pre_save :: "'n numbers \<Rightarrow> 'n PaymentRecord \<Rightarrow> 'n PaymentRecord" where
  "pre_save A r =
     (let totalBonuses = foldl (\<lambda>sum bonus. n_add A sum (or_zero A (amount bonus))) (n_zero A) (bonuses r);
          deducted = foldl (\<lambda>sum deduction. n_add A sum (or_zero A (amount deduction))) (n_zero A)
                       (deductions r);
          r1 = (if n_isNaN A deducted then r else r\<lparr>totalDeductions := deducted\<rparr>);
          basicSalary0 = or_zero A (Some (basicSalary r1));
          overtimeAmount = or_zero A (ot_amount (overtime r1));
          gross = n_add A (n_add A basicSalary0 overtimeAmount) totalBonuses;
          r2 = (if n_isNaN A gross then r1 else r1\<lparr>grossPay := Some gross\<rparr>);
          net = n_sub A (case grossPay r2 of None \<Rightarrow> n_nan A | Some g \<Rightarrow> g) (totalDeductions r2);
          r3 = (if n_isNaN A net then r2 else r2\<lparr>netPay := Some net\<rparr>)
      in r3\<lparr>payPeriod := Some (weekStartDate r3, weekEndDate r3)\<rparr>)"

text \<open>
  The \<open>Number\<close> paths that the constructor and the handlers assign. The mapper's cast
  refuses a \<open>NaN\<close> assigned to any of them and records a cast error on the document.
\<close>

definition number_paths :: "'n PaymentRecord \<Rightarrow> 'n option list" where
  "number_paths r =
     [Some (basicSalary r), ot_hours (overtime r), ot_rate (overtime r), ot_amount (overtime r)]
     @ map amount (bonuses r) @ map amount (deductions r)"

definition cast_refused :: "'n numbers \<Rightarrow> 'n PaymentRecord \<Rightarrow> bool" where
  "cast_refused A r =
     list_ex (\<lambda>a. case a of None \<Rightarrow> False | Some x \<Rightarrow> n_isNaN A x) (number_paths r)"

text \<open>
  \<open>save\<close>. Before it runs the hook the mapper validates the document: a recorded cast
  error fails the validation, and so does a value that one of the validators declared
  in the schema (\<open>required\<close>, \<open>min\<close>, \<open>enum\<close>, \<open>maxlength\<close>) rejects; the verdict of
  those validators is the parameter \<open>V\<close>. A new document is inserted unless the
  unique index on (employee, weekStartDate, weekEndDate) refuses it; a loaded document
  replaces its stored version. (The mapper writes the paths of a loaded document that
  changed since it was loaded; that is this replacement when nothing else has written
  the document since, which is how \<open>getPaymentRecord\<close> and \<open>updatePaymentRecord\<close> below
  use it: each is the request run from its load to its save with no other write to
  that document in between.)
\<close>

definition same_week :: "'n PaymentRecord \<Rightarrow> 'n PaymentRecord \<Rightarrow> bool" where
  "same_week p q =
     (p_employee p = p_employee q \<and> weekStartDate p = weekStartDate q \<and> weekEndDate p = weekEndDate q)"

definition save_new ::
  "'n numbers \<Rightarrow> ('n PaymentRecord \<Rightarrow> bool) \<Rightarrow> 'n db \<Rightarrow> 'n PaymentRecord
     \<Rightarrow> odm_error + ('n PaymentRecord \<times> 'n db)" where
  "save_new A V s r =
     (if cast_refused A r \<or> \<not> V r then Inl ValidationError
      else if list_ex (same_week (pre_save A r)) (paymentRecords s) then Inl DuplicateKey
      else Inr (pre_save A r,
                s\<lparr>paymentRecords := paymentRecords s @ [pre_save A r], next_oid := Suc (next_oid s)\<rparr>))"

definition save_loaded ::
  "'n numbers \<Rightarrow> ('n PaymentRecord \<Rightarrow> bool) \<Rightarrow> 'n db \<Rightarrow> 'n PaymentRecord
     \<Rightarrow> odm_error + ('n PaymentRecord \<times> 'n db)" where
  "save_loaded A V s r =
     (if cast_refused A r \<or> \<not> V r then Inl ValidationError
      else if \<not> list_ex (\<lambda>p. p_id p = p_id r) (paymentRecords s) then Inl DocumentNotFound
      else Inr (pre_save A r,
                s\<lparr>paymentRecords :=
                    update_first (\<lambda>p. p_id p = p_id r) (\<lambda>p. pre_save A r) (paymentRecords s)\<rparr>))"

definition markAsViewed ::
  "'n numbers \<Rightarrow> ('n PaymentRecord \<Rightarrow> bool) \<Rightarrow> 'n db \<Rightarrow> 'n PaymentRecord \<Rightarrow> time
     \<Rightarrow> odm_error + ('n PaymentRecord \<times> 'n db)" where
  "markAsViewed A V s r now = save_loaded A V s (r\<lparr>isViewed := True, viewedAt := Some now\<rparr>)"

text \<open>
  The mapper's cast of a value assigned to a \<open>Number\<close> path: \<open>undefined\<close>, \<open>null\<close> and
  the empty string leave the path without a number, a boolean or any other string is
  converted with \<open>Number\<close>. A value that converts to \<open>NaN\<close> is the cast error that
  \<open>cast_refused\<close> finds when the document is saved.
\<close>

fun cast_number :: "'n numbers \<Rightarrow> 'n jsval \<Rightarrow> 'n option" where
  "cast_number A JUndefined = None"
| "cast_number A JNull = None"
| "cast_number A (JBool b) = Some (toNumber A (JBool b))"
| "cast_number A (JNum x) = Some x"
| "cast_number A (JStr t) = (if t = [] then None else Some (n_toNumber A t))"

section \<open>Payroll: \<open>controllers/paymentRecords.js\<close>\<close>

text \<open>
  The request bodies. A numeric field holds whatever JSON value the client sent. In a
  create body an \<open>overtime\<close> or a list that is absent or falsy is \<open>None\<close>; in an update
  body \<open>None\<close> is a field that is absent, and a field that is present but is not an
  object, a list or a text of the expected kind is not modelled. Besides the fields
  the handlers read, a body may carry values for the three derived totals.
\<close>

record 'n overtime_in =
  in_hours :: "'n jsval"
  in_rate :: "'n jsval"
  in_amount :: "'n jsval"

record 'n item_in =
  item_description :: string
  item_amount :: "'n jsval"

record 'n create_body =
  req_employeeId :: oid
  req_weekStartDate :: date
  req_weekEndDate :: date
  req_basicSalary :: "'n jsval"
  req_overtime :: "'n overtime_in option"
  req_bonuses :: "'n item_in list option"
  req_deductions :: "'n item_in list option"
  req_paymentMethod :: "paymentMethod option"
  req_notes :: "string option"
  req_grossPay :: "'n jsval"
  req_totalDeductions :: "'n jsval"
  req_netPay :: "'n jsval"

record 'n update_body =
  upd_basicSalary :: "'n jsval"
  upd_overtime :: "'n overtime_in option"
  upd_bonuses :: "'n item_in list option"
  upd_deductions :: "'n item_in list option"
  upd_paymentStatus :: "paymentStatus option"
  upd_paymentMethod :: "paymentMethod option"
  upd_notes :: "string option"
  upd_grossPay :: "'n jsval"
  upd_totalDeductions :: "'n jsval"
  upd_netPay :: "'n jsval"

text \<open>\<open>if (overtime.hours && overtime.rate) overtime.amount = overtime.hours * overtime.rate\<close>.\<close>

definition process_overtime :: "'n numbers \<Rightarrow> 'n overtime_in \<Rightarrow> 'n overtime_in" where
  "process_overtime A ot =
     (if truthy A (in_hours ot) \<and> truthy A (in_rate ot)
      then ot\<lparr>in_amount := JNum (n_mul A (toNumber A (in_hours ot)) (toNumber A (in_rate ot)))\<rparr>
      else ot)"

text \<open>
  The overtime object as a document holds it. The constructor of a new document puts
  the schema default 0 where a field is \<open>undefined\<close>; an assignment to the nested path
  of a loaded document does not.
\<close>

definition cast_default :: "'n numbers \<Rightarrow> 'n jsval \<Rightarrow> 'n option" where
  "cast_default A v = (if v = JUndefined then Some (n_zero A) else cast_number A v)"

definition overtime_constructed :: "'n numbers \<Rightarrow> 'n overtime_in \<Rightarrow> 'n Overtime" where
  "overtime_constructed A ot =
     \<lparr>ot_hours = cast_default A (in_hours ot),
      ot_rate = cast_default A (in_rate ot),
      ot_amount = cast_default A (in_amount ot)\<rparr>"

definition overtime_assigned :: "'n numbers \<Rightarrow> 'n overtime_in \<Rightarrow> 'n Overtime" where
  "overtime_assigned A ot =
     \<lparr>ot_hours = cast_number A (in_hours ot),
      ot_rate = cast_number A (in_rate ot),
      ot_amount = cast_number A (in_amount ot)\<rparr>"

definition cast_item :: "'n numbers \<Rightarrow> 'n item_in \<Rightarrow> 'n line_item" where
  "cast_item A x = \<lparr>description = item_description x, amount = cast_number A (item_amount x)\<rparr>"

text \<open>
  \<open>new PaymentRecord({...})\<close>: the document built from the body, with the processed
  overtime, the schema defaults and the caller as uploader.
\<close>

definition new_PaymentRecord ::
  "'n numbers \<Rightarrow> oid \<Rightarrow> User \<Rightarrow> 'n create_body \<Rightarrow> 'n PaymentRecord" where
  "new_PaymentRecord A new_id u b =
     \<lparr>p_id = new_id,
      p_employee = req_employeeId b,
      weekStartDate = req_weekStartDate b,
      weekEndDate = req_weekEndDate b,
      payPeriod = None,
      basicSalary = parseFloat A (req_basicSalary b),
      overtime = overtime_constructed A (process_overtime A
         (case req_overtime b of
            None \<Rightarrow> \<lparr>in_hours = JNum (n_zero A), in_rate = JNum (n_zero A),
                      in_amount = JNum (n_zero A)\<rparr>
          | Some ot \<Rightarrow> ot)),
      bonuses = (case req_bonuses b of None \<Rightarrow> [] | Some xs \<Rightarrow> map (cast_item A) xs),
      deductions = (case req_deductions b of None \<Rightarrow> [] | Some xs \<Rightarrow> map (cast_item A) xs),
      grossPay = None,
      totalDeductions = n_zero A,
      netPay = None,
      paymentStatus = Pending,
      paymentDate = None,
      paymentMethod = (case req_paymentMethod b of None \<Rightarrow> BankTransfer | Some m \<Rightarrow> m),
      p_notes = req_notes b,
      uploadedBy = u_id u,
      isViewed = False,
      viewedAt = None\<rparr>"

text \<open>
  The validation chains of \<open>routes/paymentRecords.js\<close>. They have rules for the
  employee id, the two dates, the salary, the overtime fields, the bonuses, the
  deductions, the status, the method and the notes, and none for \<open>grossPay\<close>,
  \<open>totalDeductions\<close> or \<open>netPay\<close>. What the rules decide is the parameter \<open>R\<close>; it
  is given the body without those three fields.
\<close>

definition createPaymentRecordValidation :: "('n create_body \<Rightarrow> bool) \<Rightarrow> 'n create_body \<Rightarrow> bool" where
  "createPaymentRecordValidation R b =
     R (b\<lparr>req_grossPay := JUndefined, req_totalDeductions := JUndefined, req_netPay := JUndefined\<rparr>)"

definition updatePaymentRecordValidation :: "('n update_body \<Rightarrow> bool) \<Rightarrow> 'n update_body \<Rightarrow> bool" where
  "updatePaymentRecordValidation R b =
     R (b\<lparr>upd_grossPay := JUndefined, upd_totalDeductions := JUndefined, upd_netPay := JUndefined\<rparr>)"

text \<open>
  \<open>createPaymentRecord\<close> in the two parts that its \<open>await\<close>s separate. The first part
  only reads: the verdict of the validation, \<open>Employee.findById\<close> and the
  \<open>PaymentRecord.findOne\<close> that looks for a record of the same employee and week; it
  ends the request with an answer or lets it go on. The second part builds the document and saves it; whatever the save
  throws, the unique index's refusal included, is answered by the one \<open>catch\<close>. Other
  requests may run between the two parts, so the second takes the database as it is by
  then.
\<close>

definition createPaymentRecord_read ::
  "('n create_body \<Rightarrow> bool) \<Rightarrow> 'n db \<Rightarrow> 'n create_body \<Rightarrow> 'n response option" where
  "createPaymentRecord_read R s b =
     (if \<not> createPaymentRecordValidation R b then Some (Fail 400 (Text ''Validation failed''))
      else
        case find (\<lambda>e. e_id e = req_employeeId b) (employees s) of
          None \<Rightarrow> Some (Fail 404 (Text ''Employee not found''))
        | Some emp \<Rightarrow>
            (case find (\<lambda>p. p_employee p = req_employeeId b
                             \<and> weekStartDate p = req_weekStartDate b
                             \<and> weekEndDate p = req_weekEndDate b) (paymentRecords s) of
               Some existingRecord \<Rightarrow>
                 Some (Fail 400 (Text ''Payment record already exists for this employee and week period''))
             | None \<Rightarrow> None))"

definition createPaymentRecord_write ::
  "'n numbers \<Rightarrow> ('n PaymentRecord \<Rightarrow> bool) \<Rightarrow> 'n db \<Rightarrow> User \<Rightarrow> 'n create_body
     \<Rightarrow> 'n response \<times> 'n db" where
  "createPaymentRecord_write A V s u b =
     (case save_new A V s (new_PaymentRecord A (next_oid s) u b) of
        Inl err \<Rightarrow> (Fail 500 (Text ''Failed to create payment record''), s)
      | Inr (paymentRecord, s') \<Rightarrow> (Ok 201 (PayData paymentRecord), s'))"

text \<open>A create that no other request interrupts.\<close>

definition createPaymentRecord ::
  "'n numbers \<Rightarrow> ('n create_body \<Rightarrow> bool) \<Rightarrow> ('n PaymentRecord \<Rightarrow> bool) \<Rightarrow> 'n db \<Rightarrow> User
     \<Rightarrow> 'n create_body \<Rightarrow> 'n response \<times> 'n db" where
  "createPaymentRecord A R V s u b =
     (case createPaymentRecord_read R s b of
        Some answer \<Rightarrow> (answer, s)
      | None \<Rightarrow> createPaymentRecord_write A V s u b)"

text \<open>
  \<open>getPaymentRecord\<close> populates \<open>paymentRecord.employee\<close>; for a caller who is not an
  admin the record's employee is compared with the caller's own employee profile, and
  a record not yet viewed is marked as viewed.
\<close>

definition getPaymentRecord ::
  "'n numbers \<Rightarrow> ('n PaymentRecord \<Rightarrow> bool) \<Rightarrow> 'n db \<Rightarrow> User \<Rightarrow> oid \<Rightarrow> time
     \<Rightarrow> 'n response \<times> 'n db" where
  "getPaymentRecord A V s u i now =
     (case find (\<lambda>p. p_id p = i) (paymentRecords s) of
        None \<Rightarrow> (Fail 404 (Text ''Payment record not found''), s)
      | Some paymentRecord \<Rightarrow>
          if role u \<noteq> Admin then
            (case find (\<lambda>e. e_user e = u_id u) (employees s) of
               None \<Rightarrow> (Fail 403 (Text ''Access denied''), s)
             | Some emp \<Rightarrow>
                 (case find (\<lambda>e. e_id e = p_employee paymentRecord) (employees s) of
                    None \<Rightarrow> (Fail 500 (Text ''Failed to fetch payment record''), s)
                  | Some populated \<Rightarrow>
                      if e_id populated \<noteq> e_id emp then (Fail 403 (Text ''Access denied''), s)
                      else if \<not> isViewed paymentRecord then
                        (case markAsViewed A V s paymentRecord now of
                           Inl err \<Rightarrow> (Fail 500 (Text ''Failed to fetch payment record''), s)
                         | Inr (viewed, s') \<Rightarrow> (Ok 200 (PayData viewed), s'))
                      else (Ok 200 (PayData paymentRecord), s)))
          else (Ok 200 (PayData paymentRecord), s))"

text \<open>
  \<open>updatePaymentRecord\<close> assigns each supplied field in turn. The payment date is
  stamped when the body asks for \<open>paid\<close> and the record, after the assignment above,
  is not \<open>paid\<close>.
\<close>

definition assign_fields ::
  "'n numbers \<Rightarrow> 'n update_body \<Rightarrow> time \<Rightarrow> 'n PaymentRecord \<Rightarrow> 'n PaymentRecord" where
  "assign_fields A b now r =
     (let r1 = (if upd_basicSalary b \<noteq> JUndefined
                then r\<lparr>basicSalary := parseFloat A (upd_basicSalary b)\<rparr> else r);
          r2 = (case upd_overtime b of None \<Rightarrow> r1
                | Some ot \<Rightarrow> r1\<lparr>overtime := overtime_assigned A (process_overtime A ot)\<rparr>);
          r3 = (case upd_bonuses b of None \<Rightarrow> r2 | Some xs \<Rightarrow> r2\<lparr>bonuses := map (cast_item A) xs\<rparr>);
          r4 = (case upd_deductions b of None \<Rightarrow> r3
                | Some xs \<Rightarrow> r3\<lparr>deductions := map (cast_item A) xs\<rparr>);
          r5 = (case upd_paymentStatus b of None \<Rightarrow> r4 | Some st \<Rightarrow> r4\<lparr>paymentStatus := st\<rparr>);
          r6 = (case upd_paymentMethod b of None \<Rightarrow> r5 | Some m \<Rightarrow> r5\<lparr>paymentMethod := m\<rparr>);
          r7 = (case upd_notes b of None \<Rightarrow> r6 | Some n \<Rightarrow> r6\<lparr>p_notes := Some n\<rparr>)
      in if upd_paymentStatus b = Some Paid \<and> paymentStatus r7 \<noteq> Paid
         then r7\<lparr>paymentDate := Some now\<rparr> else r7)"

definition updatePaymentRecord ::
  "'n numbers \<Rightarrow> ('n update_body \<Rightarrow> bool) \<Rightarrow> ('n PaymentRecord \<Rightarrow> bool) \<Rightarrow> 'n db \<Rightarrow> oid
     \<Rightarrow> 'n update_body \<Rightarrow> time \<Rightarrow> 'n response \<times> 'n db" where
  "updatePaymentRecord A R V s i b now =
     (if \<not> updatePaymentRecordValidation R b then (Fail 400 (Text ''Validation failed''), s)
      else
        case find (\<lambda>p. p_id p = i) (paymentRecords s) of
          None \<Rightarrow> (Fail 404 (Text ''Payment record not found''), s)
        | Some paymentRecord \<Rightarrow>
            (case save_loaded A V s (assign_fields A b now paymentRecord) of
               Inl err \<Rightarrow> (Fail 500 (Text ''Failed to update payment record''), s)
             | Inr (saved, s') \<Rightarrow> (Ok 200 (PayData saved), s')))"

definition deletePaymentRecord :: "'n db \<Rightarrow> oid \<Rightarrow> 'n response \<times> 'n db" where
  "deletePaymentRecord s i =
     (case find (\<lambda>p. p_id p = i) (paymentRecords s) of
        None \<Rightarrow> (Fail 404 (Text ''Payment record not found''), s)
      | Some paymentRecord \<Rightarrow>
          (Ok 200 NoData, s\<lparr>paymentRecords := delete_first (\<lambda>p. p_id p = i) (paymentRecords s)\<rparr>))"

section \<open>Properties of documents\<close>

text \<open>The open sessions of an employee: the location rows with status checked-in.\<close>

definition open_sessions :: "'n db \<Rightarrow> oid \<Rightarrow> 'n Location list" where
  "open_sessions s e = filter (\<lambda>l. l_employee l = e \<and> l_status l = CheckedIn) (locations s)"

text \<open>No number of a location row is \<open>NaN\<close>.\<close>

definition no_nan :: "'n numbers \<Rightarrow> 'n Location \<Rightarrow> bool" where
  "no_nan A l =
     (\<not> n_isNaN A (latitude l) \<and> \<not> n_isNaN A (longitude l)
      \<and> (case accuracy l of None \<Rightarrow> True | Some a \<Rightarrow> \<not> n_isNaN A a))"

text \<open>The week window of a payment record, the key of the unique index.\<close>

definition week_key :: "'n PaymentRecord \<Rightarrow> oid \<times> date \<times> date" where
  "week_key p = (p_employee p, weekStartDate p, weekEndDate p)"

text \<open>
  The sum of the amounts of a list of bonuses or deductions, added up from the left
  starting at 0. Here and in the totals below a term that is absent, 0 or \<open>NaN\<close>
  counts as 0, which is what \<open>x || 0\<close> makes of it.
\<close>

definition total :: "'n numbers \<Rightarrow> 'n line_item list \<Rightarrow> 'n" where
  "total A xs = foldl (\<lambda>sum x. n_add A sum (or_zero A (amount x))) (n_zero A) xs"

text \<open>
  The three derived totals agree with the fields they are computed from:
  grossPay = (basicSalary + overtime.amount) + sum of the bonuses,
  totalDeductions = sum of the deductions, netPay = grossPay - totalDeductions.
\<close>

definition totals_consistent :: "'n numbers \<Rightarrow> 'n PaymentRecord \<Rightarrow> bool" where
  "totals_consistent A p =
     (grossPay p = Some (n_add A (n_add A (or_zero A (Some (basicSalary p)))
                                          (or_zero A (ot_amount (overtime p))))
                               (total A (bonuses p)))
      \<and> totalDeductions p = total A (deductions p)
      \<and> netPay p = map_option (\<lambda>g. n_sub A g (totalDeductions p)) (grossPay p))"

text \<open>
  The three totals, computed from the fields of the record, are numbers: none of them
  is \<open>NaN\<close>. (On doubles a sum of amounts that are not negative is \<open>NaN\<close> never, and the
  difference only when both sums have overflowed to \<open>Infinity\<close>.)
\<close>

definition totals_are_numbers :: "'n numbers \<Rightarrow> 'n PaymentRecord \<Rightarrow> bool" where
  "totals_are_numbers A p =
     (\<not> n_isNaN A (total A (deductions p))
      \<and> \<not> n_isNaN A (n_add A (n_add A (or_zero A (Some (basicSalary p)))
                                         (or_zero A (ot_amount (overtime p))))
                              (total A (bonuses p)))
      \<and> \<not> n_isNaN A (n_sub A (n_add A (n_add A (or_zero A (Some (basicSalary p)))
                                                 (or_zero A (ot_amount (overtime p))))
                                      (total A (bonuses p)))
                              (total A (deductions p))))"

text \<open>The totals of a record agree with its fields whenever they are numbers.\<close>

definition totals_hold :: "'n numbers \<Rightarrow> 'n PaymentRecord \<Rightarrow> bool" where
  "totals_hold A p = (totals_are_numbers A p \<longrightarrow> totals_consistent A p)"

text \<open>The fields of a payment record that no update may touch.\<close>

definition frame ::
  "'n PaymentRecord \<Rightarrow> oid \<times> oid \<times> date \<times> date \<times> oid \<times> bool \<times> time option" where
  "frame p = (p_id p, p_employee p, weekStartDate p, weekEndDate p, uploadedBy p, isViewed p, viewedAt p)"

section \<open>A small company\<close>

text \<open>
  An admin, two employees with their profiles, and the requests used as examples, in
  the exact number system. The example requests have numeric fields that are plain
  non-negative numbers or strings of digits, which the validation chains of the payroll
  routes accept: \<open>admitted\<close> is their verdict. \<open>schema_valid\<close> is the validation of a
  payment record by the constraints its schema declares.
\<close>

definition admitted :: "'a \<Rightarrow> bool" where
  "admitted b = True"

definition x_nonneg :: "exact_num option \<Rightarrow> bool" where
  "x_nonneg a = (case a of None \<Rightarrow> True | Some NaN \<Rightarrow> False | Some PosInf \<Rightarrow> True
                 | Some NegInf \<Rightarrow> False | Some (Fin x) \<Rightarrow> 0 \<le> x)"

definition schema_valid :: "exact_num PaymentRecord \<Rightarrow> bool" where
  "schema_valid r =
     (x_nonneg (Some (basicSalary r))
      \<and> x_nonneg (ot_hours (overtime r)) \<and> x_nonneg (ot_rate (overtime r))
      \<and> x_nonneg (ot_amount (overtime r))
      \<and> list_all (\<lambda>x. amount x \<noteq> None \<and> x_nonneg (amount x)) (bonuses r)
      \<and> list_all (\<lambda>x. amount x \<noteq> None \<and> x_nonneg (amount x)) (deductions r)
      \<and> x_nonneg (grossPay r) \<and> x_nonneg (Some (totalDeductions r)) \<and> x_nonneg (netPay r)
      \<and> (case p_notes r of None \<Rightarrow> True | Some n \<Rightarrow> length n \<le> 500))"

definition root_user :: User where
  "root_user = \<lparr>u_id = 0, role = Admin\<rparr>"

definition alice :: User where
  "alice = \<lparr>u_id = 1, role = EmployeeRole\<rparr>"

definition bob :: User where
  "bob = \<lparr>u_id = 2, role = EmployeeRole\<rparr>"

definition alice_profile :: Employee where
  "alice_profile = \<lparr>e_id = 10, e_user = 1, e_locations = []\<rparr>"

definition db0 :: "exact_num db" where
  "db0 = \<lparr>users = [root_user, alice, bob],
          employees = [alice_profile, \<lparr>e_id = 11, e_user = 2, e_locations = []\<rparr>],
          locations = [], paymentRecords = [], next_oid = 100\<rparr>"

definition here :: "exact_num location_request" where
  "here = \<lparr>req_latitude = JNum (Fin 12.97), req_longitude = JNum (Fin 77.59),
           req_accuracy = JUndefined, other_latitude = [], other_longitude = []\<rparr>"

definition garbled :: "exact_num location_request" where
  "garbled = \<lparr>req_latitude = JStr (utf16 ''12abc''), req_longitude = JStr (utf16 ''77.59''),
              req_accuracy = JUndefined, other_latitude = [], other_longitude = []\<rparr>"

definition wordy :: "exact_num location_request" where
  "wordy = \<lparr>req_latitude = JStr (utf16 ''north''), req_longitude = JStr (utf16 ''77.59''),
            req_accuracy = JUndefined, other_latitude = [], other_longitude = []\<rparr>"

text \<open>Alice's session 100, open since time 50, and the same session closed at time 60.\<close>

definition session_open :: "exact_num Location" where
  "session_open = \<lparr>l_id = 100, l_employee = 10, latitude = Fin 12.97, longitude = Fin 77.59,
     checkInTime = 50, checkOutTime = None, l_status = CheckedIn, accuracy = None,
     lastUpdated = 50\<rparr>"

definition db_open :: "exact_num db" where
  "db_open = \<lparr>users = [root_user, alice, bob],
          employees = [\<lparr>e_id = 10, e_user = 1, e_locations = [100]\<rparr>,
                       \<lparr>e_id = 11, e_user = 2, e_locations = []\<rparr>],
          locations = [session_open], paymentRecords = [], next_oid = 101\<rparr>"

definition db_closed :: "exact_num db" where
  "db_closed = db_open\<lparr>locations := [session_open\<lparr>checkOutTime := Some 60, l_status := CheckedOut\<rparr>]\<rparr>"

text \<open>
  The pay week of the specification's scenario: salary 1000, one bonus of 50, one
  deduction of 20, no overtime; the body also carries totals of its own.
\<close>

definition week1 :: "exact_num create_body" where
  "week1 = \<lparr>req_employeeId = 10, req_weekStartDate = 1, req_weekEndDate = 7,
     req_basicSalary = JNum (Fin 1000), req_overtime = None,
     req_bonuses = Some [\<lparr>item_description = ''bonus'', item_amount = JNum (Fin 50)\<rparr>],
     req_deductions = Some [\<lparr>item_description = ''tax'', item_amount = JNum (Fin 20)\<rparr>],
     req_paymentMethod = None, req_notes = None,
     req_grossPay = JNum (Fin 1), req_totalDeductions = JNum (Fin 2), req_netPay = JNum (Fin 3)\<rparr>"

definition record1 :: "exact_num PaymentRecord" where
  "record1 = \<lparr>p_id = 100, p_employee = 10, weekStartDate = 1, weekEndDate = 7,
     payPeriod = Some (1, 7), basicSalary = Fin 1000,
     overtime = \<lparr>ot_hours = Some (Fin 0), ot_rate = Some (Fin 0), ot_amount = Some (Fin 0)\<rparr>,
     bonuses = [\<lparr>description = ''bonus'', amount = Some (Fin 50)\<rparr>],
     deductions = [\<lparr>description = ''tax'', amount = Some (Fin 20)\<rparr>],
     grossPay = Some (Fin 1050), totalDeductions = Fin 20, netPay = Some (Fin 1030),
     paymentStatus = Pending, paymentDate = None, paymentMethod = BankTransfer,
     p_notes = None, uploadedBy = 0, isViewed = False, viewedAt = None\<rparr>"

definition db_paid :: "exact_num db" where
  "db_paid = db0\<lparr>paymentRecords := [record1], next_oid := 101\<rparr>"

text \<open>
  Overtime of 2 hours at rate 10 with an explicit amount of 5; the same without hours;
  and overtime whose hours and rate are the strings \<open>0\<close> and \<open>10\<close>, with amount 5.
\<close>

definition overtime_all :: "exact_num overtime_in" where
  "overtime_all = \<lparr>in_hours = JNum (Fin 2), in_rate = JNum (Fin 10), in_amount = JNum (Fin 5)\<rparr>"

definition overtime_flat :: "exact_num overtime_in" where
  "overtime_flat = \<lparr>in_hours = JUndefined, in_rate = JNum (Fin 10), in_amount = JNum (Fin 5)\<rparr>"

definition overtime_text :: "exact_num overtime_in" where
  "overtime_text = \<lparr>in_hours = JStr (utf16 ''0''), in_rate = JStr (utf16 ''10''),
                    in_amount = JNum (Fin 5)\<rparr>"

definition no_change :: "exact_num update_body" where
  "no_change = \<lparr>upd_basicSalary = JUndefined, upd_overtime = None, upd_bonuses = None,
     upd_deductions = None, upd_paymentStatus = None, upd_paymentMethod = None,
     upd_notes = None, upd_grossPay = JUndefined, upd_totalDeductions = JUndefined,
     upd_netPay = JUndefined\<rparr>"

section \<open>Evaluation of the examples\<close>

lemmas ex_defs = root_user_def alice_def bob_def alice_profile_def db0_def here_def garbled_def
  wordy_def session_open_def db_open_def db_closed_def week1_def record1_def db_paid_def
  overtime_all_def overtime_flat_def overtime_text_def no_change_def admitted_def

lemmas num_defs = exact_def x_sub_def x_literal_def unsigned_literal_def digits_val_def
  digit_val_def exponent_of_def scale10_def x_toNumber_def whole_literal_def utf16_def
  parseFloat_string_def starts_literal_def after_sign_def is_ws_def is_digit_def

lemmas loc_defs = checkIn_def checkIn_read_def checkIn_write_def checkOut_def
  updateLiveLocation_def getLocation_def deleteLocation_def Location_create_def castNumber_def
  castOptNumber_def checkin_validation_def field_not_empty_def

lemmas pay_defs = createPaymentRecordValidation_def updatePaymentRecordValidation_def
  createPaymentRecord_def createPaymentRecord_read_def
  createPaymentRecord_write_def updatePaymentRecord_def getPaymentRecord_def
  deletePaymentRecord_def save_new_def save_loaded_def markAsViewed_def pre_save_def
  number_paths_def cast_refused_def
  or_zero_def same_week_def schema_valid_def x_nonneg_def process_overtime_def
  cast_default_def overtime_constructed_def overtime_assigned_def cast_item_def
  assign_fields_def new_PaymentRecord_def

lemma checkIn_db0: "checkIn exact db0 alice here 50 = (Ok 201 (LocData session_open), db_open)"
  by (simp add: ex_defs loc_defs num_defs)

lemma checkOut_db_open: "snd (checkOut db_open alice 100 60) = db_closed"
  by (simp add: ex_defs loc_defs)

lemma create_db0:
  "createPaymentRecord exact admitted schema_valid db0 root_user week1 = (Ok 201 (PayData record1), db_paid)"
  by (simp add: ex_defs pay_defs num_defs Let_def)

section \<open>Lists and the first match\<close>

lemma find_None_filter: "find P xs = None \<Longrightarrow> filter P xs = []"
  by (induction xs) (auto split: if_splits)


lemma map_update_first_const:
  "find P xs = Some x \<Longrightarrow> g y = g x \<Longrightarrow> map g (update_first P (\<lambda>p. y) xs) = map g xs"
  by (induction xs) (auto split: if_splits)

lemma find_update_first_const:
  "find P xs = Some x \<Longrightarrow> P y \<Longrightarrow> find P (update_first P (\<lambda>p. y) xs) = Some y"
  by (induction xs) (auto split: if_splits)

lemma find_update_first:
  "find P xs = Some x \<Longrightarrow> P (f x) \<Longrightarrow> find P (update_first P f xs) = Some (f x)"
  by (induction xs) (auto split: if_splits)

section \<open>Attendance\<close>

subsection \<open>Open sessions\<close>

text \<open>
  A check-in that runs alone, by an employee whose profile has an open session, is
  turned away by the pre-check and writes nothing.
\<close>

lemma checkIn_already_open:
  assumes "role u = EmployeeRole"
    and "find (\<lambda>e. e_user e = u_id u) (employees s) = Some emp"
    and "open_sessions s (e_id emp) \<noteq> []"
  shows "checkIn A s u lb now =
     (if checkin_validation A lb
      then Fail 400 (Text ''You are already checked in. Please check out first.'')
      else ValidationErrors, s)"
proof -
  have "find (\<lambda>l. l_employee l = e_id emp \<and> l_status l = CheckedIn) (locations s) \<noteq> None"
    using assms(3)
      find_None_filter [of "\<lambda>l. l_employee l = e_id emp \<and> l_status l = CheckedIn" "locations s"]
    unfolding open_sessions_def by auto
  then show ?thesis using assms(1,2) by (auto simp: checkIn_def checkIn_read_def)
qed

text \<open>
  C2 does not hold of \<open>checkIn\<close> when two check-ins of one employee overlap. Alice
  sends two check-in requests. Each runs its reads on the database \<open>db0\<close>, where she
  has no open session, before the other has written: both pass the pre-check. Then the
  first creates session 100 at time 50 and the second, on the database the first has
  left, creates session 101 at time 51. It is answered 201, and Alice has two location
  rows with status checked-in. Nothing at the storage level stands in the way:
  \<open>LocationSchema\<close> declares no unique index.
\<close>

theorem overlapping_checkIns_two_open_sessions:
  "open_sessions db0 10 = []
   \<and> checkIn_read exact db0 alice here = Inr alice_profile
   \<and> checkIn_write exact db0 alice_profile here 50 = (Ok 201 (LocData session_open), db_open)
   \<and> status_code (fst (checkIn_write exact db_open alice_profile here 51)) = 201
   \<and> map l_id (open_sessions (snd (checkIn_write exact db_open alice_profile here 51)) 10)
       = [100, 101]
   \<and> length (open_sessions (snd (checkIn_write exact db_open alice_profile here 51)) 10) = 2"
  by (simp add: ex_defs loc_defs num_defs open_sessions_def)

subsection \<open>Who may act on a session\<close>

lemma getLocation_admin:
  "role u = Admin \<Longrightarrow> find (\<lambda>l. l_id l = i) (locations s) = Some l
     \<Longrightarrow> getLocation s u i = Ok 200 (LocData l)"
  by (simp add: getLocation_def)

lemma getLocation_other:
  assumes "role u \<noteq> Admin"
    and "find (\<lambda>l. l_id l = i) (locations s) = Some l"
    and "find (\<lambda>e. e_id e = l_employee l) (employees s) = Some e"
    and "find (\<lambda>x. u_id x = e_user e) (users s) = Some owner"
    and "e_user e \<noteq> u_id u"
  shows "getLocation s u i = Fail 403 (Text ''Not authorized to access this location'')"
proof -
  have "u_id owner = e_user e"
    using assms(4) by (auto simp: find_Some_iff)
  then show ?thesis
    using assms by (simp add: getLocation_def)
qed

lemma checkOut_other:
  assumes "find (\<lambda>l. l_id l = i) (locations s) = Some l"
    and "find (\<lambda>e. e_id e = l_employee l) (employees s) = Some e"
    and "e_user e \<noteq> u_id u"
  shows "checkOut s u i now = (Fail 403 (Text ''Not authorized to check out from this location''), s)"
  using assms by (simp add: checkOut_def)

lemma updateLiveLocation_other:
  assumes "find (\<lambda>l. l_id l = i) (locations s) = Some l"
    and "find (\<lambda>e. e_id e = l_employee l) (employees s) = Some e"
    and "e_user e \<noteq> u_id u"
  shows "updateLiveLocation A s u i lb now = (Fail 403 (Text ''Not authorized to update this location''), s)"
  using assms by (simp add: updateLiveLocation_def)

text \<open>
  C4, as the claim states it, fails: the admin asks to check out, and to live-update,
  the open session 100 of Alice and is answered 403 both times, the database unchanged.
\<close>

theorem admin_checkOut_forbidden:
  "role root_user = Admin
   \<and> checkOut db_open root_user 100 60 =
       (Fail 403 (Text ''Not authorized to check out from this location''), db_open)
   \<and> updateLiveLocation exact db_open root_user 100 here 60 =
       (Fail 403 (Text ''Not authorized to update this location''), db_open)"
  by (simp add: ex_defs loc_defs)

text \<open>
  C4, amended. Let a location belong to an employee profile whose user is not the
  caller. Check-out and live-update answer 403 and change nothing, whatever the
  caller's role, admin included. A read answers 200 with the location for an admin,
  and 403 for any other caller (the owning user's document being there to compare).
\<close>

theorem location_access_by_others:
  assumes "find (\<lambda>l. l_id l = i) (locations s) = Some l"
    and "find (\<lambda>e. e_id e = l_employee l) (employees s) = Some e"
    and "e_user e \<noteq> u_id u"
  shows "checkOut s u i now = (Fail 403 (Text ''Not authorized to check out from this location''), s)
     \<and> updateLiveLocation A s u i lb now = (Fail 403 (Text ''Not authorized to update this location''), s)
     \<and> (role u = Admin \<longrightarrow> getLocation s u i = Ok 200 (LocData l))
     \<and> (role u \<noteq> Admin \<and> find (\<lambda>x. u_id x = e_user e) (users s) = Some owner \<longrightarrow>
           getLocation s u i = Fail 403 (Text ''Not authorized to access this location''))"
  using assms
  by (simp add: checkOut_other updateLiveLocation_other getLocation_admin getLocation_other)

theorem location_access_by_others_witness:
  "checkOut db_open bob 100 60 =
       (Fail 403 (Text ''Not authorized to check out from this location''), db_open)
   \<and> updateLiveLocation exact db_open bob 100 here 60 =
       (Fail 403 (Text ''Not authorized to update this location''), db_open)
   \<and> getLocation db_open bob 100 = Fail 403 (Text ''Not authorized to access this location'')
   \<and> getLocation db_open root_user 100 = Ok 200 (LocData session_open)"
proof -
  have l: "find (\<lambda>l. l_id l = 100) (locations db_open) = Some session_open"
    by (simp add: ex_defs)
  have e: "find (\<lambda>e. e_id e = l_employee session_open) (employees db_open)
             = Some \<lparr>e_id = 10, e_user = 1, e_locations = [100]\<rparr>"
    by (simp add: ex_defs)
  have o: "find (\<lambda>x. u_id x = e_user \<lparr>e_id = 10, e_user = 1, e_locations = [100]\<rparr>) (users db_open)
             = Some alice"
    by (simp add: ex_defs)
  have b: "e_user \<lparr>e_id = 10, e_user = 1, e_locations = [100]\<rparr> \<noteq> u_id bob" "role bob \<noteq> Admin"
    by (simp_all add: ex_defs)
  have r: "e_user \<lparr>e_id = 10, e_user = 1, e_locations = [100]\<rparr> \<noteq> u_id root_user" "role root_user = Admin"
    by (simp_all add: ex_defs)
  show ?thesis
    using location_access_by_others [OF l e b(1), of 60 exact here alice]
      location_access_by_others [OF l e r(1), of 60 exact here alice] o b(2) r(2)
    by simp
qed

subsection \<open>A closed session\<close>

text \<open>
  C5. A live update of a location whose status is not checked-in fails and leaves the
  database, hence the row's latitude, longitude, accuracy and lastUpdated, as it was.
  For the caller who owns the session the answer is 400 with the text "Cannot update
  location for checked-out session"; the ownership test comes first, so any other
  caller is turned away by it.
\<close>

theorem liveUpdate_closed_session:
  assumes "find (\<lambda>l. l_id l = i) (locations s) = Some l"
    and "l_status l \<noteq> CheckedIn"
  shows "snd (updateLiveLocation A s u i lb now) = s
     \<and> find (\<lambda>l. l_id l = i) (locations (snd (updateLiveLocation A s u i lb now))) = Some l
     \<and> is_failure (fst (updateLiveLocation A s u i lb now))
     \<and> (find (\<lambda>e. e_id e = l_employee l) (employees s) = Some e \<and> e_user e = u_id u \<longrightarrow>
          fst (updateLiveLocation A s u i lb now) =
            Fail 400 (Text ''Cannot update location for checked-out session''))"
  using assms by (auto simp: updateLiveLocation_def split: option.splits)

theorem liveUpdate_closed_session_witness:
  "l_status (session_open\<lparr>checkOutTime := Some 60, l_status := CheckedOut\<rparr>) \<noteq> CheckedIn
   \<and> updateLiveLocation exact db_closed alice 100 here 70 =
       (Fail 400 (Text ''Cannot update location for checked-out session''), db_closed)"
proof -
  have l: "find (\<lambda>l. l_id l = 100) (locations db_closed)
             = Some (session_open\<lparr>checkOutTime := Some 60, l_status := CheckedOut\<rparr>)"
    by (simp add: ex_defs)
  have c: "l_status (session_open\<lparr>checkOutTime := Some 60, l_status := CheckedOut\<rparr>) \<noteq> CheckedIn"
    by simp
  have e: "find (\<lambda>e. e_id e = l_employee (session_open\<lparr>checkOutTime := Some 60, l_status := CheckedOut\<rparr>))
             (employees db_closed) = Some \<lparr>e_id = 10, e_user = 1, e_locations = [100]\<rparr>
           \<and> e_user \<lparr>e_id = 10, e_user = 1, e_locations = [100]\<rparr> = u_id alice"
    by (simp add: ex_defs)
  show ?thesis
    using liveUpdate_closed_session
        [OF l c, of exact alice here 70 "\<lparr>e_id = 10, e_user = 1, e_locations = [100]\<rparr>"] e c
    by (simp add: prod_eq_iff)
qed

text \<open>
  C6 does not hold of \<open>checkOut\<close>, which never looks at the status. Alice checks in at
  time 50 and out at time 60; her second check-out of the same session at time 70 is
  answered 200 and the stored check-out time 60 is replaced by 70.
\<close>

theorem checkOut_repeated_overwrites:
  "snd (checkIn exact db0 alice here 50) = db_open
   \<and> snd (checkOut db_open alice 100 60) = db_closed
   \<and> map l_status (locations db_closed) = [CheckedOut]
   \<and> map checkOutTime (locations db_closed) = [Some 60]
   \<and> status_code (fst (checkOut db_closed alice 100 70)) = 200
   \<and> map checkOutTime (locations (snd (checkOut db_closed alice 100 70))) = [Some 70]"
  by (simp add: ex_defs loc_defs num_defs)

subsection \<open>Coordinates that do not parse\<close>

lemma castNumber_Inr: "castNumber A x = Inr y \<Longrightarrow> y = x \<and> \<not> n_isNaN A x"
  by (auto simp: castNumber_def split: if_splits)

lemma castOptNumber_Inr:
  "castOptNumber A a = Inr b \<Longrightarrow> b = a \<and> (case a of None \<Rightarrow> True | Some x \<Rightarrow> \<not> n_isNaN A x)"
  by (auto simp: castOptNumber_def castNumber_def split: option.splits if_splits)

lemma Location_create_no_nan: "Location_create A n e lat lng acc now = Inr l \<Longrightarrow> no_nan A l"
  by (auto simp: Location_create_def no_nan_def split: sum.splits
           dest!: castNumber_Inr castOptNumber_Inr)

lemma checkIn_write_Ok:
  assumes "checkIn_write A s e lb now = (Ok 201 (LocData l), s')"
  shows "l \<in> set (locations s') \<and> no_nan A l"
  using assms
  by (auto simp: checkIn_write_def split: sum.splits dest: Location_create_no_nan)

lemma checkIn_Ok:
  assumes "checkIn A s u lb now = (Ok 201 (LocData l), s')"
  shows "l \<in> set (locations s') \<and> no_nan A l"
proof (cases "checkIn_read A s u lb")
  case (Inl answer)
  with assms have "answer = Ok 201 (LocData l)"
    by (simp add: checkIn_def)
  with Inl show ?thesis
    by (auto simp: checkIn_read_def split: if_splits option.splits)
next
  case (Inr e)
  with assms have "checkIn_write A s e lb now = (Ok 201 (LocData l), s')"
    by (simp add: checkIn_def)
  then show ?thesis by (rule checkIn_write_Ok)
qed

lemma updateLiveLocation_Ok:
  assumes ok: "updateLiveLocation A s u i lb now = (Ok 200 (LocData l), s')"
  shows "find (\<lambda>l. l_id l = i) (locations s') = Some l \<and> no_nan A l"
proof -
  obtain l0 where L: "find (\<lambda>l. l_id l = i) (locations s) = Some l0"
    using ok by (cases "find (\<lambda>l. l_id l = i) (locations s)") (auto simp: updateLiveLocation_def)
  obtain e where E: "find (\<lambda>e. e_id e = l_employee l0) (employees s) = Some e"
    using ok L
    by (cases "find (\<lambda>e. e_id e = l_employee l0) (employees s)") (auto simp: updateLiveLocation_def)
  have g: "e_user e = u_id u" "l_status l0 = CheckedIn"
    using ok L E by (auto simp: updateLiveLocation_def split: if_splits)
  obtain lat where lat: "castNumber A (parseFloat A (req_latitude lb)) = Inr lat"
    using ok L E g
    by (cases "castNumber A (parseFloat A (req_latitude lb))") (auto simp: updateLiveLocation_def)
  obtain lng where lng: "castNumber A (parseFloat A (req_longitude lb)) = Inr lng"
    using ok L E g lat
    by (cases "castNumber A (parseFloat A (req_longitude lb))") (auto simp: updateLiveLocation_def)
  obtain acc where acc: "castOptNumber A (if truthy A (req_accuracy lb)
        then Some (parseFloat A (req_accuracy lb)) else accuracy l0) = Inr acc"
    using ok L E g lat lng
    by (cases "castOptNumber A (if truthy A (req_accuracy lb)
        then Some (parseFloat A (req_accuracy lb)) else accuracy l0)")
       (auto simp: updateLiveLocation_def)
  have l: "l = l0\<lparr>latitude := lat, longitude := lng, accuracy := acc, lastUpdated := now\<rparr>"
    and s': "locations s' = update_first (\<lambda>l. l_id l = i)
               (\<lambda>l. l\<lparr>latitude := lat, longitude := lng, accuracy := acc, lastUpdated := now\<rparr>)
               (locations s)"
    using ok L E g lat lng acc by (auto simp: updateLiveLocation_def)
  have i: "l_id l0 = i"
    using L by (auto simp: find_Some_iff)
  have "find (\<lambda>l. l_id l = i) (locations s') = Some l"
    unfolding s' l by (rule find_update_first [OF L]) (simp add: i)
  moreover have "no_nan A l"
    using castNumber_Inr [OF lat] castNumber_Inr [OF lng] castOptNumber_Inr [OF acc]
    by (auto simp: no_nan_def l split: option.splits)
  ultimately show ?thesis by simp
qed

lemma checkIn_unparsed:
  assumes "n_isNaN A (parseFloat A (req_latitude lb)) \<or> n_isNaN A (parseFloat A (req_longitude lb))
           \<or> (truthy A (req_accuracy lb) \<and> n_isNaN A (parseFloat A (req_accuracy lb)))"
  shows "is_failure (fst (checkIn A s u lb now)) \<and> snd (checkIn A s u lb now) = s"
  using assms
  by (auto simp: checkIn_def checkIn_read_def checkIn_write_def Location_create_def castNumber_def
        castOptNumber_def split: option.splits sum.splits)

lemma updateLiveLocation_unparsed:
  assumes "n_isNaN A (parseFloat A (req_latitude lb)) \<or> n_isNaN A (parseFloat A (req_longitude lb))
           \<or> (truthy A (req_accuracy lb) \<and> n_isNaN A (parseFloat A (req_accuracy lb)))"
  shows "is_failure (fst (updateLiveLocation A s u i lb now))
     \<and> snd (updateLiveLocation A s u i lb now) = s"
  using assms
  by (auto simp: updateLiveLocation_def castNumber_def castOptNumber_def
           split: option.splits sum.splits)

lemma parseFloat_no_literal:
  "\<not> starts_literal (after_sign (dropWhile is_ws t)) \<Longrightarrow> parseFloat A (JStr t) = n_nan A"
  by (simp add: parseFloat_string_def)

text \<open>
  C8, as the claim states it, fails: the latitude \<open>12abc\<close> is not a number, yet the
  check-in is answered 201 and a row with latitude 12 is stored; a live update with the
  same body is answered 200 and writes 12 as well.
\<close>

theorem checkIn_garbled_latitude_accepted:
  "req_latitude garbled = JStr (utf16 ''12abc'')
   \<and> status_code (fst (checkIn exact db0 alice garbled 50)) = 201
   \<and> map latitude (locations (snd (checkIn exact db0 alice garbled 50))) = [Fin 12]
   \<and> status_code (fst (updateLiveLocation exact db_open alice 100 garbled 60)) = 200
   \<and> map latitude (locations (snd (updateLiveLocation exact db_open alice 100 garbled 60))) = [Fin 12]"
  by (simp add: ex_defs loc_defs num_defs)

text \<open>
  C8, amended. A check-in or live update fails and leaves the database as it was
  whenever \<open>parseFloat\<close> reads \<open>NaN\<close> from the latitude, from the longitude, or from an
  accuracy that is supplied and truthy. That is so in particular when one of them is a
  string that, after its leading white space and an optional sign, begins neither with
  a digit, nor with a point and a digit, nor with \<open>Infinity\<close> (for the accuracy: a
  string of that kind that is not empty). And the row that a successful check-in
  creates, or a successful live update writes, holds no \<open>NaN\<close> as latitude, longitude
  or accuracy. Nothing is said of a malformed string that begins with a number.
\<close>

theorem unreadable_coordinates_rejected:
  "(n_isNaN A (parseFloat A (req_latitude lb)) \<or> n_isNaN A (parseFloat A (req_longitude lb))
      \<or> (truthy A (req_accuracy lb) \<and> n_isNaN A (parseFloat A (req_accuracy lb)))
    \<longrightarrow> is_failure (fst (checkIn A s u lb now)) \<and> snd (checkIn A s u lb now) = s
        \<and> is_failure (fst (updateLiveLocation A s u i lb now))
        \<and> snd (updateLiveLocation A s u i lb now) = s)
   \<and> (n_isNaN A (n_nan A) \<and> \<not> starts_literal (after_sign (dropWhile is_ws t))
      \<and> (req_latitude lb = JStr t \<or> req_longitude lb = JStr t
          \<or> (req_accuracy lb = JStr t \<and> t \<noteq> []))
    \<longrightarrow> is_failure (fst (checkIn A s u lb now)) \<and> snd (checkIn A s u lb now) = s
        \<and> is_failure (fst (updateLiveLocation A s u i lb now))
        \<and> snd (updateLiveLocation A s u i lb now) = s)
   \<and> (checkIn A s u lb now = (Ok 201 (LocData l), s')
    \<longrightarrow> l \<in> set (locations s')
        \<and> \<not> n_isNaN A (latitude l) \<and> \<not> n_isNaN A (longitude l) \<and> (\<forall>a. accuracy l = Some a \<longrightarrow> \<not> n_isNaN A a))
   \<and> (updateLiveLocation A s u i lb now = (Ok 200 (LocData l), s')
    \<longrightarrow> find (\<lambda>l. l_id l = i) (locations s') = Some l
        \<and> \<not> n_isNaN A (latitude l) \<and> \<not> n_isNaN A (longitude l) \<and> (\<forall>a. accuracy l = Some a \<longrightarrow> \<not> n_isNaN A a))"
proof (intro conjI impI)
  assume "n_isNaN A (parseFloat A (req_latitude lb)) \<or> n_isNaN A (parseFloat A (req_longitude lb))
      \<or> (truthy A (req_accuracy lb) \<and> n_isNaN A (parseFloat A (req_accuracy lb)))"
  then show "is_failure (fst (checkIn A s u lb now))" "snd (checkIn A s u lb now) = s"
    "is_failure (fst (updateLiveLocation A s u i lb now))"
    "snd (updateLiveLocation A s u i lb now) = s"
    using checkIn_unparsed [of A lb s u now] updateLiveLocation_unparsed [of A lb s u i now]
    by blast+
next
  assume a: "n_isNaN A (n_nan A) \<and> \<not> starts_literal (after_sign (dropWhile is_ws t))
      \<and> (req_latitude lb = JStr t \<or> req_longitude lb = JStr t
          \<or> (req_accuracy lb = JStr t \<and> t \<noteq> []))"
  then have "parseFloat A (JStr t) = n_nan A"
    using parseFloat_no_literal by blast
  with a have "n_isNaN A (parseFloat A (req_latitude lb)) \<or> n_isNaN A (parseFloat A (req_longitude lb))
      \<or> (truthy A (req_accuracy lb) \<and> n_isNaN A (parseFloat A (req_accuracy lb)))"
    by auto
  then show "is_failure (fst (checkIn A s u lb now))" "snd (checkIn A s u lb now) = s"
    "is_failure (fst (updateLiveLocation A s u i lb now))"
    "snd (updateLiveLocation A s u i lb now) = s"
    using checkIn_unparsed [of A lb s u now] updateLiveLocation_unparsed [of A lb s u i now]
    by blast+
next
  assume "checkIn A s u lb now = (Ok 201 (LocData l), s')"
  from checkIn_Ok [OF this]
  show "l \<in> set (locations s')" "\<not> n_isNaN A (latitude l)" "\<not> n_isNaN A (longitude l)"
    "\<forall>a. accuracy l = Some a \<longrightarrow> \<not> n_isNaN A a"
    by (auto simp: no_nan_def)
next
  assume "updateLiveLocation A s u i lb now = (Ok 200 (LocData l), s')"
  from updateLiveLocation_Ok [OF this]
  show "find (\<lambda>l. l_id l = i) (locations s') = Some l" "\<not> n_isNaN A (latitude l)"
    "\<not> n_isNaN A (longitude l)" "\<forall>a. accuracy l = Some a \<longrightarrow> \<not> n_isNaN A a"
    by (auto simp: no_nan_def)
qed

theorem unreadable_coordinates_rejected_witness:
  "n_isNaN exact (n_nan exact)
   \<and> req_latitude wordy = JStr (utf16 ''north'')
   \<and> \<not> starts_literal (after_sign (dropWhile is_ws (utf16 ''north'')))
   \<and> n_isNaN exact (parseFloat exact (req_latitude wordy))
   \<and> checkIn exact db0 alice wordy 50 = (Fail 500 (ErrMessage ValidationError), db0)
   \<and> updateLiveLocation exact db_open alice 100 wordy 60 = (Fail 500 (Text ''Server Error''), db_open)
   \<and> checkIn exact db0 alice here 50 = (Ok 201 (LocData session_open), db_open)
   \<and> \<not> n_isNaN exact (latitude session_open) \<and> \<not> n_isNaN exact (longitude session_open)"
proof -
  have p: "n_isNaN exact (n_nan exact) \<and> \<not> starts_literal (after_sign (dropWhile is_ws (utf16 ''north'')))
      \<and> (req_latitude wordy = JStr (utf16 ''north'') \<or> req_longitude wordy = JStr (utf16 ''north'')
          \<or> (req_accuracy wordy = JStr (utf16 ''north'') \<and> utf16 ''north'' \<noteq> []))"
    by (simp add: ex_defs num_defs)
  have q: "n_isNaN exact (parseFloat exact (req_latitude wordy))"
    by (simp add: ex_defs num_defs)
  have "snd (checkIn exact db0 alice wordy 50) = db0"
    using unreadable_coordinates_rejected
      [where A = exact and lb = wordy and s = db0 and u = alice and now = 50
         and t = "utf16 ''north''"] p
    by blast
  moreover have "snd (updateLiveLocation exact db_open alice 100 wordy 60) = db_open"
    using unreadable_coordinates_rejected
      [where A = exact and lb = wordy and s = db_open and u = alice and now = 60 and i = 100] q
    by blast
  moreover have "\<not> n_isNaN exact (latitude session_open) \<and> \<not> n_isNaN exact (longitude session_open)"
    using unreadable_coordinates_rejected
      [where A = exact and lb = here and s = db0 and u = alice and now = 50
         and l = session_open and s' = db_open] checkIn_db0
    by blast
  moreover have "fst (checkIn exact db0 alice wordy 50) = Fail 500 (ErrMessage ValidationError)"
    by (simp add: ex_defs loc_defs num_defs)
  moreover have "fst (updateLiveLocation exact db_open alice 100 wordy 60) = Fail 500 (Text ''Server Error'')"
    by (simp add: ex_defs loc_defs num_defs)
  moreover have "req_latitude wordy = JStr (utf16 ''north'')"
    by (simp add: ex_defs)
  ultimately show ?thesis
    using p q checkIn_db0 by (simp add: prod_eq_iff)
qed

section \<open>Payroll\<close>

subsection \<open>What a save does\<close>

lemma pre_save_totals: "totals_hold A (pre_save A r)"
  by (simp add: totals_hold_def totals_are_numbers_def totals_consistent_def pre_save_def Let_def
        total_def)

lemma pre_save_fields:
  "p_id (pre_save A r) = p_id r"
  "week_key (pre_save A r) = week_key r"
  "frame (pre_save A r) = frame r"
  "overtime (pre_save A r) = overtime r"
  "isViewed (pre_save A r) = isViewed r"
  "viewedAt (pre_save A r) = viewedAt r"
  by (simp_all add: pre_save_def Let_def week_key_def frame_def)

lemma assign_fields_frame: "frame (assign_fields A b now r) = frame r"
  by (simp add: assign_fields_def Let_def frame_def split: option.splits)

lemma assign_fields_id: "p_id (assign_fields A b now r) = p_id r"
  using assign_fields_frame [of A b now r] by (simp add: frame_def)

lemma frame_week_key: "frame p = frame q \<Longrightarrow> week_key p = week_key q"
  by (simp add: frame_def week_key_def)

lemma find_id: "find (\<lambda>p. p_id p = i) xs = Some p \<Longrightarrow> p_id p = i \<and> p \<in> set xs"
  by (induction xs) (auto split: if_splits)

lemma find_id_ex: "list_ex (\<lambda>p. p_id p = i) xs \<Longrightarrow> \<exists>p. find (\<lambda>p. p_id p = i) xs = Some p"
  by (induction xs) auto

lemma save_loaded_Inr:
  "save_loaded A V s r = Inr (r', s') \<Longrightarrow>
     r' = pre_save A r
     \<and> list_ex (\<lambda>p. p_id p = p_id r) (paymentRecords s)
     \<and> s' = s\<lparr>paymentRecords :=
               update_first (\<lambda>p. p_id p = p_id r) (\<lambda>p. pre_save A r) (paymentRecords s)\<rparr>"
  by (auto simp: save_loaded_def split: if_splits)

lemma save_new_Inr:
  "save_new A V s r = Inr (r', s') \<Longrightarrow>
     r' = pre_save A r \<and> \<not> list_ex (same_week (pre_save A r)) (paymentRecords s)
     \<and> s' = s\<lparr>paymentRecords := paymentRecords s @ [pre_save A r], next_oid := Suc (next_oid s)\<rparr>"
  by (auto simp: save_new_def split: if_splits)

lemma save_loaded_stored:
  assumes "save_loaded A V s r = Inr (r', s')"
  shows "find (\<lambda>p. p_id p = p_id r) (paymentRecords s') = Some r' \<and> totals_hold A r'"
proof -
  from save_loaded_Inr [OF assms] have r': "r' = pre_save A r"
    and ex: "list_ex (\<lambda>p. p_id p = p_id r) (paymentRecords s)"
    and s': "paymentRecords s' =
        update_first (\<lambda>p. p_id p = p_id r) (\<lambda>p. pre_save A r) (paymentRecords s)"
    by simp_all
  from find_id_ex [OF ex] obtain p where p: "find (\<lambda>p. p_id p = p_id r) (paymentRecords s) = Some p"
    by blast
  have "find (\<lambda>p. p_id p = p_id r) (paymentRecords s') = Some r'"
    unfolding s' r' by (rule find_update_first_const [OF p]) (simp add: pre_save_fields)
  then show ?thesis
    by (simp add: r' pre_save_totals)
qed

lemma createPaymentRecord_write_Ok:
  assumes "createPaymentRecord_write A V s u cb = (Ok 201 (PayData r), s')"
  shows "r = pre_save A (new_PaymentRecord A (next_oid s) u cb) \<and> r \<in> set (paymentRecords s')"
  using assms
  by (auto simp: createPaymentRecord_write_def split: sum.splits dest!: save_new_Inr)


lemma updatePaymentRecord_Ok:
  assumes "updatePaymentRecord A R V s i ub now = (Ok 200 (PayData r), s')"
  shows "\<exists>p. find (\<lambda>p. p_id p = i) (paymentRecords s) = Some p
           \<and> r = pre_save A (assign_fields A ub now p)
           \<and> find (\<lambda>p. p_id p = i) (paymentRecords s') = Some r"
proof -
  obtain p where p: "find (\<lambda>p. p_id p = i) (paymentRecords s) = Some p"
    and sv: "save_loaded A V s (assign_fields A ub now p) = Inr (r, s')"
    using assms
    by (auto simp: updatePaymentRecord_def split: if_splits option.splits sum.splits)
  have i: "p_id p = i"
    using find_id [OF p] by simp
  from save_loaded_Inr [OF sv] have r: "r = pre_save A (assign_fields A ub now p)"
    by simp
  from save_loaded_stored [OF sv] have "find (\<lambda>p. p_id p = i) (paymentRecords s') = Some r"
    by (simp add: assign_fields_id i)
  with p r show ?thesis by blast
qed

lemma updatePaymentRecord_cases:
  "snd (updatePaymentRecord A R V s i ub now) = s
   \<or> (\<exists>p. find (\<lambda>p. p_id p = i) (paymentRecords s) = Some p
        \<and> paymentRecords (snd (updatePaymentRecord A R V s i ub now)) =
            update_first (\<lambda>q. p_id q = i) (\<lambda>q. pre_save A (assign_fields A ub now p)) (paymentRecords s))"
  by (auto simp: updatePaymentRecord_def assign_fields_id split: option.splits sum.splits
           dest!: save_loaded_Inr dest: find_id)



lemma createPaymentRecord_write_cases:
  "snd (createPaymentRecord_write A V s u cb) = s
   \<or> (\<exists>r. \<not> list_ex (same_week (pre_save A r)) (paymentRecords s)
        \<and> paymentRecords (snd (createPaymentRecord_write A V s u cb)) = paymentRecords s @ [pre_save A r])"
  by (auto simp: createPaymentRecord_write_def split: sum.splits dest!: save_new_Inr)


subsection \<open>The derived totals\<close>








subsection \<open>One record per employee and week\<close>

lemma same_week_key: "same_week p q \<longleftrightarrow> week_key p = week_key q"
  by (auto simp: same_week_def week_key_def)

lemma list_ex_same_week:
  "list_ex (same_week r) xs \<longleftrightarrow> week_key r \<in> set (map week_key xs)"
  by (auto simp: list_ex_iff same_week_key)

lemma createPaymentRecord_write_distinct:
  assumes "distinct (map week_key (paymentRecords s))"
  shows "distinct (map week_key (paymentRecords (snd (createPaymentRecord_write A V s u cb))))"
  using createPaymentRecord_write_cases [of A V s u cb] assms
  by (auto simp: list_ex_same_week)

lemma createPaymentRecord_duplicate:
  assumes "p \<in> set (paymentRecords s)"
    and "week_key p = (req_employeeId cb, req_weekStartDate cb, req_weekEndDate cb)"
  shows "createPaymentRecord A R V s u cb =
     (if \<not> createPaymentRecordValidation R cb then Fail 400 (Text ''Validation failed'')
      else if find (\<lambda>e. e_id e = req_employeeId cb) (employees s) = None
        then Fail 404 (Text ''Employee not found'')
      else Fail 400 (Text ''Payment record already exists for this employee and week period''), s)"
proof -
  have "find (\<lambda>p. p_employee p = req_employeeId cb \<and> weekStartDate p = req_weekStartDate cb
                   \<and> weekEndDate p = req_weekEndDate cb) (paymentRecords s) \<noteq> None"
    using assms by (auto simp: find_None_iff week_key_def)
  then show ?thesis
    by (auto simp: createPaymentRecord_def createPaymentRecord_read_def split: option.splits)
qed

text \<open>
  C3. Two create requests for the same employee and week, both past the
  \<open>findOne\<close> pre-check before either saves: on the empty collection each pre-check
  finds nothing; the first save stores the record; the second save is refused by the
  unique index, so that no second row is stored, and the request is answered with
  status 500 and the text "Failed to create payment record". The same request made
  after the first has finished is answered with 400 and "Payment record already exists
  for this employee and week period".
\<close>

theorem overlapping_creates_generic_500:
  "createPaymentRecord_read admitted db0 week1 = None
   \<and> createPaymentRecord_write exact schema_valid db0 root_user week1
       = (Ok 201 (PayData record1), db_paid)
   \<and> save_new exact schema_valid db_paid (new_PaymentRecord exact (next_oid db_paid) root_user week1)
       = Inl DuplicateKey
   \<and> createPaymentRecord_write exact schema_valid db_paid root_user week1
       = (Fail 500 (Text ''Failed to create payment record''), db_paid)
   \<and> status_code (fst (createPaymentRecord_write exact schema_valid db_paid root_user week1)) = 500
   \<and> createPaymentRecord exact admitted schema_valid db_paid root_user week1
       = (Fail 400 (Text ''Payment record already exists for this employee and week period''), db_paid)"
  by (simp add: ex_defs pay_defs num_defs Let_def)

subsection \<open>Fields an update leaves alone\<close>

text \<open>
  C10. Whatever the body, an update leaves the id, the employee reference,
  weekStartDate, weekEndDate, uploadedBy, isViewed and viewedAt of every stored payment
  record as they were, position by position; so the week triples of the collection are
  the same before and after.
\<close>

theorem updatePaymentRecord_frame:
  "map frame (paymentRecords (snd (updatePaymentRecord A R V s i ub now))) = map frame (paymentRecords s)
   \<and> map week_key (paymentRecords (snd (updatePaymentRecord A R V s i ub now)))
       = map week_key (paymentRecords s)"
proof -
  consider "snd (updatePaymentRecord A R V s i ub now) = s"
    | p where "find (\<lambda>p. p_id p = i) (paymentRecords s) = Some p"
        "paymentRecords (snd (updatePaymentRecord A R V s i ub now)) =
            update_first (\<lambda>q. p_id q = i) (\<lambda>q. pre_save A (assign_fields A ub now p)) (paymentRecords s)"
    using updatePaymentRecord_cases [of A R V s i ub now] by blast
  then show ?thesis
  proof cases
    case 1
    then show ?thesis by simp
  next
    case 2
    have f: "frame (pre_save A (assign_fields A ub now p)) = frame p"
      by (simp add: pre_save_fields assign_fields_frame)
    then have "week_key (pre_save A (assign_fields A ub now p)) = week_key p"
      by (rule frame_week_key)
    with f 2 show ?thesis
      by (simp add: map_update_first_const [OF 2(1)])
  qed
qed

theorem updatePaymentRecord_frame_witness:
  "updatePaymentRecordValidation admitted (no_change\<lparr>upd_basicSalary := JNum (Fin 1200)\<rparr>)
   \<and> map basicSalary (paymentRecords (snd (updatePaymentRecord exact admitted schema_valid db_paid 100
          (no_change\<lparr>upd_basicSalary := JNum (Fin 1200)\<rparr>) 80))) = [Fin 1200]
   \<and> map frame (paymentRecords (snd (updatePaymentRecord exact admitted schema_valid db_paid 100
          (no_change\<lparr>upd_basicSalary := JNum (Fin 1200)\<rparr>) 80))) = [(100, 10, 1, 7, 0, False, None)]"
proof -
  have "map frame (paymentRecords db_paid) = [(100, 10, 1, 7, 0, False, None)]"
    by (simp add: ex_defs frame_def)
  moreover have "map basicSalary (paymentRecords (snd (updatePaymentRecord exact admitted schema_valid
          db_paid 100 (no_change\<lparr>upd_basicSalary := JNum (Fin 1200)\<rparr>) 80))) = [Fin 1200]"
    by (simp add: ex_defs pay_defs num_defs Let_def)
  moreover have "updatePaymentRecordValidation admitted (no_change\<lparr>upd_basicSalary := JNum (Fin 1200)\<rparr>)"
    by (simp add: ex_defs pay_defs)
  ultimately show ?thesis
    using updatePaymentRecord_frame
      [of exact admitted schema_valid db_paid 100 "no_change\<lparr>upd_basicSalary := JNum (Fin 1200)\<rparr>" 80]
    by simp
qed

subsection \<open>The overtime amount\<close>

lemma process_overtime_computed:
  "truthy A (in_hours ot) \<Longrightarrow> truthy A (in_rate ot)
     \<Longrightarrow> in_amount (process_overtime A ot)
           = JNum (n_mul A (toNumber A (in_hours ot)) (toNumber A (in_rate ot)))"
  by (simp add: process_overtime_def)

lemma process_overtime_kept:
  "\<not> (truthy A (in_hours ot) \<and> truthy A (in_rate ot)) \<Longrightarrow> process_overtime A ot = ot"
  by (auto simp: process_overtime_def)

lemma cast_default_Some: "cast_number A v = Some a \<Longrightarrow> cast_default A v = Some a"
  by (cases v) (simp_all add: cast_default_def)

lemma assign_fields_overtime:
  "upd_overtime ub = Some ot \<Longrightarrow>
     overtime (assign_fields A ub now p) = overtime_assigned A (process_overtime A ot)"
  by (simp add: assign_fields_def Let_def split: option.splits)

lemma new_PaymentRecord_overtime:
  "req_overtime cb = Some ot \<Longrightarrow>
     overtime (new_PaymentRecord A n u cb) = overtime_constructed A (process_overtime A ot)"
  by (simp add: new_PaymentRecord_def)

text \<open>
  C7, as the claim states it, fails: a create request with 2 hours at rate 10 and an
  explicit amount of 5 stores the amount 20, and so does an update with that overtime.
\<close>

theorem explicit_overtime_amount_overwritten:
  "in_amount overtime_all = JNum (Fin 5)
   \<and> status_code (fst (createPaymentRecord exact admitted schema_valid db0 root_user
                          (week1\<lparr>req_overtime := Some overtime_all\<rparr>))) = 201
   \<and> map (\<lambda>p. ot_amount (overtime p))
        (paymentRecords (snd (createPaymentRecord exact admitted schema_valid db0 root_user
                                (week1\<lparr>req_overtime := Some overtime_all\<rparr>)))) = [Some (Fin 20)]
   \<and> status_code (fst (updatePaymentRecord exact admitted schema_valid db_paid 100
                          (no_change\<lparr>upd_overtime := Some overtime_all\<rparr>) 80)) = 200
   \<and> map (\<lambda>p. ot_amount (overtime p))
        (paymentRecords (snd (updatePaymentRecord exact admitted schema_valid db_paid 100
                                (no_change\<lparr>upd_overtime := Some overtime_all\<rparr>) 80))) = [Some (Fin 20)]"
  by (simp add: ex_defs pay_defs num_defs Let_def)

text \<open>
  C7, amended. After a create or an update that succeeds with an overtime object in its
  body, the stored overtime amount is the product of hours and rate, each converted to
  a number, whenever hours and rate are both truthy, that is, each a number other than
  0 and NaN, a non-empty string (the string "0" included) or \<open>true\<close>, whether or not an
  amount was supplied as well. When hours or rate is absent or falsy, an amount that
  was supplied is stored as the number it denotes.
\<close>

theorem overtime_amount_rule:
  "(createPaymentRecord_write A V s u cb = (Ok 201 (PayData r), s') \<and> req_overtime cb = Some ot \<longrightarrow>
      r \<in> set (paymentRecords s')
      \<and> (truthy A (in_hours ot) \<and> truthy A (in_rate ot) \<longrightarrow>
           ot_amount (overtime r) = Some (n_mul A (toNumber A (in_hours ot)) (toNumber A (in_rate ot))))
      \<and> (\<not> (truthy A (in_hours ot) \<and> truthy A (in_rate ot)) \<and> cast_number A (in_amount ot) = Some a \<longrightarrow>
           ot_amount (overtime r) = Some a))
   \<and> (createPaymentRecord A R V s u cb = (Ok 201 (PayData r), s') \<longrightarrow>
        createPaymentRecord_write A V s u cb = (Ok 201 (PayData r), s'))
   \<and> (updatePaymentRecord A Ru V s i ub now = (Ok 200 (PayData r), s') \<and> upd_overtime ub = Some ot \<longrightarrow>
      find (\<lambda>p. p_id p = i) (paymentRecords s') = Some r
      \<and> (truthy A (in_hours ot) \<and> truthy A (in_rate ot) \<longrightarrow>
           ot_amount (overtime r) = Some (n_mul A (toNumber A (in_hours ot)) (toNumber A (in_rate ot))))
      \<and> (\<not> (truthy A (in_hours ot) \<and> truthy A (in_rate ot)) \<and> cast_number A (in_amount ot) = Some a \<longrightarrow>
           ot_amount (overtime r) = Some a))"
proof (intro conjI impI; (elim conjE)?)
  assume c: "createPaymentRecord_write A V s u cb = (Ok 201 (PayData r), s')"
    and o: "req_overtime cb = Some ot"
  from createPaymentRecord_write_Ok [OF c]
  have r: "overtime r = overtime_constructed A (process_overtime A ot)"
    and m: "r \<in> set (paymentRecords s')"
    by (auto simp: pre_save_fields new_PaymentRecord_overtime [OF o])
  show "r \<in> set (paymentRecords s')" by (rule m)
  {
    assume "truthy A (in_hours ot)" "truthy A (in_rate ot)"
    then show "ot_amount (overtime r) = Some (n_mul A (toNumber A (in_hours ot)) (toNumber A (in_rate ot)))"
      by (simp add: r overtime_constructed_def process_overtime_computed cast_default_def)
  }
  {
    assume "\<not> (truthy A (in_hours ot) \<and> truthy A (in_rate ot))" and "cast_number A (in_amount ot) = Some a"
    then show "ot_amount (overtime r) = Some a"
      by (simp add: r overtime_constructed_def process_overtime_kept cast_default_Some)
  }
next
  assume c: "createPaymentRecord A R V s u cb = (Ok 201 (PayData r), s')"
  then show "createPaymentRecord_write A V s u cb = (Ok 201 (PayData r), s')"
    by (auto simp: createPaymentRecord_def createPaymentRecord_read_def split: option.splits if_splits)
next
  assume c: "updatePaymentRecord A Ru V s i ub now = (Ok 200 (PayData r), s')"
    and o: "upd_overtime ub = Some ot"
  from updatePaymentRecord_Ok [OF c]
  have r: "overtime r = overtime_assigned A (process_overtime A ot)"
    and m: "find (\<lambda>p. p_id p = i) (paymentRecords s') = Some r"
    by (auto simp: pre_save_fields assign_fields_overtime [OF o])
  show "find (\<lambda>p. p_id p = i) (paymentRecords s') = Some r" by (rule m)
  {
    assume "truthy A (in_hours ot)" "truthy A (in_rate ot)"
    then show "ot_amount (overtime r) = Some (n_mul A (toNumber A (in_hours ot)) (toNumber A (in_rate ot)))"
      by (simp add: r overtime_assigned_def process_overtime_computed)
  }
  {
    assume "\<not> (truthy A (in_hours ot) \<and> truthy A (in_rate ot))" and "cast_number A (in_amount ot) = Some a"
    then show "ot_amount (overtime r) = Some a"
      by (simp add: r overtime_assigned_def process_overtime_kept)
  }
qed

theorem overtime_amount_rule_witness:
  "createPaymentRecord exact admitted schema_valid db0 root_user (week1\<lparr>req_overtime := Some overtime_all\<rparr>) =
      (Ok 201 (PayData (pre_save exact (new_PaymentRecord exact 100 root_user
                                          (week1\<lparr>req_overtime := Some overtime_all\<rparr>)))),
       snd (createPaymentRecord_write exact schema_valid db0 root_user (week1\<lparr>req_overtime := Some overtime_all\<rparr>)))
   \<and> truthy exact (in_hours overtime_all) \<and> truthy exact (in_rate overtime_all)
   \<and> ot_amount (overtime (pre_save exact (new_PaymentRecord exact 100 root_user
                                      (week1\<lparr>req_overtime := Some overtime_all\<rparr>)))) = Some (Fin 20)
   \<and> truthy exact (in_hours overtime_text) \<and> truthy exact (in_rate overtime_text)
   \<and> in_amount overtime_text = JNum (Fin 5)
   \<and> updatePaymentRecord exact admitted schema_valid db_paid 100 (no_change\<lparr>upd_overtime := Some overtime_text\<rparr>) 80 =
      (Ok 200 (PayData (pre_save exact (assign_fields exact (no_change\<lparr>upd_overtime := Some overtime_text\<rparr>) 80 record1))),
       snd (updatePaymentRecord exact admitted schema_valid db_paid 100 (no_change\<lparr>upd_overtime := Some overtime_text\<rparr>) 80))
   \<and> ot_amount (overtime (pre_save exact (assign_fields exact (no_change\<lparr>upd_overtime := Some overtime_text\<rparr>)
                                      80 record1))) = Some (Fin 0)
   \<and> \<not> truthy exact (in_hours overtime_flat)
   \<and> updatePaymentRecord exact admitted schema_valid db_paid 100 (no_change\<lparr>upd_overtime := Some overtime_flat\<rparr>) 80 =
      (Ok 200 (PayData (pre_save exact (assign_fields exact (no_change\<lparr>upd_overtime := Some overtime_flat\<rparr>) 80 record1))),
       snd (updatePaymentRecord exact admitted schema_valid db_paid 100 (no_change\<lparr>upd_overtime := Some overtime_flat\<rparr>) 80))
   \<and> ot_amount (overtime (pre_save exact (assign_fields exact (no_change\<lparr>upd_overtime := Some overtime_flat\<rparr>)
                                      80 record1))) = Some (Fin 5)"
proof -
  let ?cb = "week1\<lparr>req_overtime := Some overtime_all\<rparr>"
  let ?ut = "no_change\<lparr>upd_overtime := Some overtime_text\<rparr>"
  let ?ub = "no_change\<lparr>upd_overtime := Some overtime_flat\<rparr>"
  have w: "createPaymentRecord_write exact schema_valid db0 root_user ?cb =
      (Ok 201 (PayData (pre_save exact (new_PaymentRecord exact 100 root_user ?cb))),
       snd (createPaymentRecord_write exact schema_valid db0 root_user ?cb))"
    by (simp add: ex_defs pay_defs num_defs Let_def)
  have c: "createPaymentRecord exact admitted schema_valid db0 root_user ?cb =
      (Ok 201 (PayData (pre_save exact (new_PaymentRecord exact 100 root_user ?cb))),
       snd (createPaymentRecord_write exact schema_valid db0 root_user ?cb))"
    by (simp add: ex_defs pay_defs num_defs Let_def)
  have t: "updatePaymentRecord exact admitted schema_valid db_paid 100 ?ut 80 =
      (Ok 200 (PayData (pre_save exact (assign_fields exact ?ut 80 record1))),
       snd (updatePaymentRecord exact admitted schema_valid db_paid 100 ?ut 80))"
    by (simp add: ex_defs pay_defs num_defs Let_def)
  have u: "updatePaymentRecord exact admitted schema_valid db_paid 100 ?ub 80 =
      (Ok 200 (PayData (pre_save exact (assign_fields exact ?ub 80 record1))),
       snd (updatePaymentRecord exact admitted schema_valid db_paid 100 ?ub 80))"
    by (simp add: ex_defs pay_defs num_defs Let_def)
  have o1: "req_overtime ?cb = Some overtime_all"
    "truthy exact (in_hours overtime_all)" "truthy exact (in_rate overtime_all)"
    "n_mul exact (toNumber exact (in_hours overtime_all)) (toNumber exact (in_rate overtime_all)) = Fin 20"
    by (simp_all add: ex_defs num_defs)
  have o2: "upd_overtime ?ut = Some overtime_text"
    "truthy exact (in_hours overtime_text)" "truthy exact (in_rate overtime_text)"
    "in_amount overtime_text = JNum (Fin 5)"
    "n_mul exact (toNumber exact (in_hours overtime_text)) (toNumber exact (in_rate overtime_text)) = Fin 0"
    by (simp_all add: ex_defs num_defs)
  have o3: "upd_overtime ?ub = Some overtime_flat"
    "\<not> truthy exact (in_hours overtime_flat)"
    "cast_number exact (in_amount overtime_flat) = Some (Fin 5)"
    by (simp_all add: ex_defs num_defs)
  have "ot_amount (overtime (pre_save exact (new_PaymentRecord exact 100 root_user ?cb))) = Some (Fin 20)"
    using overtime_amount_rule
      [where A = exact and V = schema_valid and s = db0 and u = root_user and cb = ?cb
         and ot = overtime_all
         and r = "pre_save exact (new_PaymentRecord exact 100 root_user ?cb)"
         and s' = "snd (createPaymentRecord_write exact schema_valid db0 root_user ?cb)"]
      w o1 by simp
  moreover have "ot_amount (overtime (pre_save exact (assign_fields exact ?ut 80 record1))) = Some (Fin 0)"
    using overtime_amount_rule
      [where A = exact and V = schema_valid and Ru = admitted and s = db_paid and i = 100
         and ub = ?ut and now = 80 and ot = overtime_text
         and r = "pre_save exact (assign_fields exact ?ut 80 record1)"
         and s' = "snd (updatePaymentRecord exact admitted schema_valid db_paid 100 ?ut 80)"]
      t o2 by simp
  moreover have "ot_amount (overtime (pre_save exact (assign_fields exact ?ub 80 record1))) = Some (Fin 5)"
    using overtime_amount_rule
      [where A = exact and V = schema_valid and Ru = admitted and s = db_paid and i = 100
         and ub = ?ub and now = 80 and ot = overtime_flat and a = "Fin 5"
         and r = "pre_save exact (assign_fields exact ?ub 80 record1)"
         and s' = "snd (updatePaymentRecord exact admitted schema_valid db_paid 100 ?ub 80)"]
      u o3 by simp
  ultimately show ?thesis
    using c t u o1 o2 o3 by simp
qed

subsection \<open>Marking a record as viewed\<close>

lemma getPaymentRecord_viewed:
  "find (\<lambda>p. p_id p = i) (paymentRecords s) = Some r \<Longrightarrow> isViewed r
     \<Longrightarrow> snd (getPaymentRecord A V s u i now) = s"
  by (auto simp: getPaymentRecord_def split: option.splits)

lemma getPaymentRecord_first_view:
  assumes f: "find (\<lambda>p. p_id p = i) (paymentRecords s) = Some r"
    and nv: "\<not> isViewed r"
    and ro: "role u \<noteq> Admin"
    and ok: "getPaymentRecord A V s u i now = (Ok 200 (PayData r'), s')"
  shows "isViewed r' \<and> viewedAt r' = Some now
     \<and> find (\<lambda>p. p_id p = i) (paymentRecords s') = Some r'
     \<and> getPaymentRecord A V2 s' u i now2 = (Ok 200 (PayData r'), s')"
proof -
  obtain emp pop where emp: "find (\<lambda>e. e_user e = u_id u) (employees s) = Some emp"
    and pop: "find (\<lambda>e. e_id e = p_employee r) (employees s) = Some pop"
    and same: "e_id pop = e_id emp"
    and sv: "save_loaded A V s (r\<lparr>isViewed := True, viewedAt := Some now\<rparr>) = Inr (r', s')"
    using f nv ro ok
    by (auto simp: getPaymentRecord_def markAsViewed_def split: option.splits sum.splits if_splits)
  have i: "p_id r = i"
    using find_id [OF f] by simp
  from save_loaded_Inr [OF sv] have r': "r' = pre_save A (r\<lparr>isViewed := True, viewedAt := Some now\<rparr>)"
    and s': "s' = s\<lparr>paymentRecords := update_first (\<lambda>q. p_id q = i)
                  (\<lambda>q. pre_save A (r\<lparr>isViewed := True, viewedAt := Some now\<rparr>)) (paymentRecords s)\<rparr>"
    by (simp_all add: i)
  have v: "isViewed r'" "viewedAt r' = Some now" "p_id r' = i"
    by (simp_all add: r' pre_save_fields i)
  have e: "p_employee r' = p_employee r"
    using pre_save_fields(2) [of A "r\<lparr>isViewed := True, viewedAt := Some now\<rparr>"]
    by (simp add: r' week_key_def)
  have fr: "find (\<lambda>p. p_id p = i) (paymentRecords s') = Some r'"
    using find_update_first_const [OF f, of r'] v(3) by (simp add: s' r')
  have es: "employees s' = employees s"
    by (simp add: s')
  have "getPaymentRecord A V2 s' u i now2 = (Ok 200 (PayData r'), s')"
    using fr ro emp pop same v(1) e by (simp add: getPaymentRecord_def es)
  with v fr show ?thesis by simp
qed

text \<open>
  C9. A read of a payment record that is already marked as viewed changes nothing in
  the database, whoever the caller. When a caller who is not an admin reads, with
  success, a record not yet viewed, the stored record gets isViewed = true and
  viewedAt = the time of that read, and every later read of it by that caller returns
  the same record and leaves the database, so viewedAt, as it is.
\<close>

theorem markAsViewed_first_read_only:
  "(find (\<lambda>p. p_id p = i) (paymentRecords s) = Some r \<and> isViewed r \<longrightarrow>
      snd (getPaymentRecord A V s u i now) = s)
   \<and> (find (\<lambda>p. p_id p = i) (paymentRecords s) = Some r \<and> \<not> isViewed r \<and> role u \<noteq> Admin
       \<and> getPaymentRecord A V s u i now = (Ok 200 (PayData r'), s') \<longrightarrow>
         isViewed r' \<and> viewedAt r' = Some now
         \<and> find (\<lambda>p. p_id p = i) (paymentRecords s') = Some r'
         \<and> getPaymentRecord A V2 s' u i now2 = (Ok 200 (PayData r'), s')
         \<and> snd (getPaymentRecord A V2 s' u2 i now2) = s')"
proof (intro conjI impI; (elim conjE)?)
  assume "find (\<lambda>p. p_id p = i) (paymentRecords s) = Some r" "isViewed r"
  then show "snd (getPaymentRecord A V s u i now) = s"
    by (rule getPaymentRecord_viewed)
next
  assume a: "find (\<lambda>p. p_id p = i) (paymentRecords s) = Some r" "\<not> isViewed r" "role u \<noteq> Admin"
    "getPaymentRecord A V s u i now = (Ok 200 (PayData r'), s')"
  note fv = getPaymentRecord_first_view [OF a, of V2 now2]
  from fv show "isViewed r'" "viewedAt r' = Some now"
    "find (\<lambda>p. p_id p = i) (paymentRecords s') = Some r'"
    "getPaymentRecord A V2 s' u i now2 = (Ok 200 (PayData r'), s')"
    by simp_all
  from fv show "snd (getPaymentRecord A V2 s' u2 i now2) = s'"
    using getPaymentRecord_viewed [of i s' r' A V2 u2 now2] by simp
qed

theorem markAsViewed_first_read_only_witness:
  "\<not> isViewed record1 \<and> role alice \<noteq> Admin
   \<and> getPaymentRecord exact schema_valid db_paid alice 100 80 =
       (Ok 200 (PayData (record1\<lparr>isViewed := True, viewedAt := Some 80\<rparr>)),
        db_paid\<lparr>paymentRecords := [record1\<lparr>isViewed := True, viewedAt := Some 80\<rparr>]\<rparr>)
   \<and> getPaymentRecord exact schema_valid
        (db_paid\<lparr>paymentRecords := [record1\<lparr>isViewed := True, viewedAt := Some 80\<rparr>]\<rparr>) alice 100 90 =
       (Ok 200 (PayData (record1\<lparr>isViewed := True, viewedAt := Some 80\<rparr>)),
        db_paid\<lparr>paymentRecords := [record1\<lparr>isViewed := True, viewedAt := Some 80\<rparr>]\<rparr>)"
proof -
  let ?r = "record1\<lparr>isViewed := True, viewedAt := Some 80\<rparr>"
  let ?s = "db_paid\<lparr>paymentRecords := [?r]\<rparr>"
  have f: "find (\<lambda>p. p_id p = 100) (paymentRecords db_paid) = Some record1"
    "\<not> isViewed record1" "role alice \<noteq> Admin"
    by (simp_all add: ex_defs)
  have g: "getPaymentRecord exact schema_valid db_paid alice 100 80 = (Ok 200 (PayData ?r), ?s)"
    by (simp add: ex_defs pay_defs num_defs Let_def)
  have "getPaymentRecord exact schema_valid ?s alice 100 90 = (Ok 200 (PayData ?r), ?s)"
    using markAsViewed_first_read_only
      [where A = exact and i = 100 and s = db_paid and r = record1 and u = alice and V = schema_valid
         and now = 80 and r' = ?r and s' = ?s and ?V2.0 = schema_valid and ?now2.0 = 90]
      f g by blast
  moreover have "snd (getPaymentRecord exact schema_valid ?s alice 100 90) = ?s"
    using markAsViewed_first_read_only
      [where A = exact and i = 100 and s = ?s and r = ?r and u = alice and V = schema_valid and now = 90]
    by (simp add: record1_def)
  ultimately show ?thesis
    using f g by simp
qed

end
